theory Spec2Isabelle
  imports Main "HOL-Library.Sublist"
begin

section \<open>The MCP chatbot client: capability registry and conversation loop\<close>

text \<open>
  A shallow embedding of \<^verbatim>\<open>src/client/mcp_chatbot.py\<close> (class \<^verbatim>\<open>McpChatBot\<close>).
  The remote parties (MCP servers, the Anthropic backend) are not part of the program;
  they appear as data or as oracles, and every theorem holds for all of them.

  \<^item> Startup (\<^verbatim>\<open>connect_to_servers\<close>, \<^verbatim>\<open>connect_to_server\<close>,
    \<^verbatim>\<open>load_mcp_components\<close>) asks every provider each question once, so a provider is
    a record of its answers.
  \<^item> The conversation phase (\<^verbatim>\<open>process_query\<close>, \<^verbatim>\<open>get_resource\<close>,
    \<^verbatim>\<open>execute_prompt\<close>) may ask the same question many times. There every remote
    operation is an oracle that reads the whole interaction history so far; each call
    appends an event to the history, so any sequence of answers is some oracle.
  \<^item> Every \<^verbatim>\<open>print\<close> and every remote call is an event of the history, in program
    order.
  \<^item> An exception is a value. Only subclasses of \<^verbatim>\<open>Exception\<close> are modelled, which is
    what the \<^verbatim>\<open>except Exception\<close> clauses of the source catch.
\<close>

subsection \<open>Data\<close>

datatype error = Exception string

text \<open>
  A \<^verbatim>\<open>ClientSession\<close> object. One is created per configured server, and the server
  names are the keys of one dictionary, so the name identifies the object.
\<close>

datatype session = Session string

text \<open>What \<^verbatim>\<open>list_tools\<close> and \<^verbatim>\<open>list_prompts\<close> return, and the dictionaries
  the client appends to \<^verbatim>\<open>available_tools\<close> and \<^verbatim>\<open>available_prompts\<close>.\<close>

datatype tool = Tool (tool_name: string) (tool_description: string) (tool_inputSchema: string)

datatype tool_dict =
  Tool_dict (d_name: string) (d_description: string) (d_input_schema: string)

datatype prompt =
  Prompt (prompt_name: string) (prompt_description: string) (prompt_arguments: "string list")

datatype prompt_dict =
  Prompt_dict (pd_name: string) (pd_description: string) (pd_arguments: "string list")

text \<open>Everything the client writes to standard output, one constructor per
  \<^verbatim>\<open>print\<close> statement of the source.\<close>

datatype notice =
    Text_out string \<comment> \<open>\<^verbatim>\<open>print(content.text)\<close>\<close>
  | Tool_not_found string \<comment> \<open>\<^verbatim>\<open>Tool '...' not found.\<close>\<close>
  | Resource_not_found string \<comment> \<open>\<^verbatim>\<open>Resource '...' not found.\<close>\<close>
  | Resource_header string \<comment> \<open>\<^verbatim>\<open>Resource: ...\<close>\<close>
  | Content_header \<comment> \<open>\<^verbatim>\<open>Content:\<close>\<close>
  | Content_text string \<comment> \<open>\<^verbatim>\<open>print(result.contents[0].text)\<close>\<close>
  | No_content \<comment> \<open>\<^verbatim>\<open>No content available.\<close>\<close>
  | Error_getting_resource string error
  | Prompt_not_found string \<comment> \<open>\<^verbatim>\<open>Prompt '...' not found.\<close>\<close>
  | Executing_prompt string \<comment> \<open>\<^verbatim>\<open>Executing prompt '...'...\<close>\<close>
  | Error_executing_prompt string error
  | Error_loading_component session error
      \<comment> \<open>\<^verbatim>\<open>Error loading MCP component from session=...\<close>\<close>
  | Error_connecting string error \<comment> \<open>\<^verbatim>\<open>Error connecting to server: ...\<close>\<close>
  | Error_in_chat error \<comment> \<open>\<^verbatim>\<open>Error: ...\<close>, printed by \<^verbatim>\<open>chat_loop\<close>\<close>

text \<open>A content block of a model response: \<^verbatim>\<open>content.type\<close> is \<^verbatim>\<open>"text"\<close>,
  \<^verbatim>\<open>"tool_use"\<close> (with id, name and input) or anything else.\<close>

datatype content =
    Text string
  | Tool_use string string string
  | Other_block string

fun is_tool_use :: "content \<Rightarrow> bool" where
  "is_tool_use (Tool_use i n inp) = True"
| "is_tool_use c = False"

text \<open>The conversation as the backend receives it: each turn with its content.\<close>

datatype api_turn =
    User_says string
  | Assistant_says "content list"
  | User_tool_result string string \<comment> \<open>\<^verbatim>\<open>tool_use_id\<close> and the result's content\<close>

datatype event =
    Printed notice
  | Backend_request "tool_dict list" "api_turn list" \<comment> \<open>\<^verbatim>\<open>anthropic.messages.create\<close>\<close>
  | Call_tool session string string \<comment> \<open>\<^verbatim>\<open>session.call_tool(name, arguments=input)\<close>\<close>
  | Read_resource session string \<comment> \<open>\<^verbatim>\<open>session.read_resource(uri=...)\<close>\<close>
  | Get_prompt session string "(string \<times> string) list"
      \<comment> \<open>\<^verbatim>\<open>session.get_prompt(name, arguments=args)\<close>\<close>

subsection \<open>The chatbot object\<close>

text \<open>
  The attributes of \<^verbatim>\<open>McpChatBot\<close> that the modelled methods read or write.
  \<^verbatim>\<open>self.sessions\<close> is ONE dictionary: tool names, prompt names and resource URIs are
  all keys of it. A Python dictionary iterates in the order in which its keys were first
  inserted, and \<^verbatim>\<open>get_resource\<close> iterates over it, so it is an association list.
  \<open>history\<close> is not an attribute: it collects the events.
\<close>

record chatbot =
  run_locally :: bool
  sessions :: "(string \<times> session) list"
  available_tools :: "tool_dict list"
  available_prompts :: "prompt_dict list"
  history :: "event list"

text \<open>\<^verbatim>\<open>d[k] = v\<close>: a key already present keeps its position and gets the new value;
  a new key goes to the end.\<close>

primrec dict_set :: "'k \<Rightarrow> 'v \<Rightarrow> ('k \<times> 'v) list \<Rightarrow> ('k \<times> 'v) list" where
  "dict_set k v [] = [(k, v)]"
| "dict_set k v (p # ps) = (if fst p = k then (k, v) # ps else p # dict_set k v ps)"

text \<open>\<^verbatim>\<open>d.get(k)\<close>: \<open>None\<close> when the key is absent. A session object is always
  truthy, so \<^verbatim>\<open>if not session\<close> is the test for \<open>None\<close>.\<close>

definition dict_get :: "('k \<times> 'v) list \<Rightarrow> 'k \<Rightarrow> 'v option" where
  "dict_get d k = map_of d k"

definition say :: "notice \<Rightarrow> chatbot \<Rightarrow> chatbot" where
  "say n b = b\<lparr>history := history b @ [Printed n]\<rparr>"

text \<open>\<^verbatim>\<open>McpChatBot.__init__\<close>: empty registry.\<close>

definition init_chatbot :: "bool \<Rightarrow> chatbot" where
  "init_chatbot local =
     \<lparr>run_locally = local, sessions = [], available_tools = [], available_prompts = [],
      history = []\<rparr>"

subsection \<open>Providers and the registry build\<close>

text \<open>
  A provider as the client meets it at startup. The first four fields say whether a
  step of \<^verbatim>\<open>connect_to_server\<close> raises (\<open>Some\<close> the exception): opening the stdio
  transport (with building its parameters), opening the streamable-HTTP transport,
  entering \<^verbatim>\<open>ClientSession(read, write)\<close>, and \<^verbatim>\<open>session.initialize()\<close>. The other
  three are the answers to the listing requests; \<open>Inr None\<close> is a falsy response object.
\<close>

record provider =
  stdio_client :: "error option"
  streamablehttp_client :: "error option"
  client_session :: "error option"
  initialize :: "error option"
  list_tools :: "error + tool list"
  list_prompts :: "error + prompt list option"
  list_resources :: "error + string list option"

text \<open>The three \<^verbatim>\<open>for\<close> loops of \<^verbatim>\<open>load_mcp_components\<close>.\<close>

fun register_tools :: "session \<Rightarrow> tool list \<Rightarrow> chatbot \<Rightarrow> chatbot" where
  "register_tools s [] b = b"
| "register_tools s (t # ts) b =
     register_tools s ts
       (b\<lparr>sessions := dict_set (tool_name t) s (sessions b),
          available_tools := available_tools b @
            [Tool_dict (tool_name t) (tool_description t) (tool_inputSchema t)]\<rparr>)"

fun register_prompts :: "session \<Rightarrow> prompt list \<Rightarrow> chatbot \<Rightarrow> chatbot" where
  "register_prompts s [] b = b"
| "register_prompts s (p # ps) b =
     register_prompts s ps
       (b\<lparr>sessions := dict_set (prompt_name p) s (sessions b),
          available_prompts := available_prompts b @
            [Prompt_dict (prompt_name p) (prompt_description p) (prompt_arguments p)]\<rparr>)"

fun register_resources :: "session \<Rightarrow> string list \<Rightarrow> chatbot \<Rightarrow> chatbot" where
  "register_resources s [] b = b"
| "register_resources s (resource_uri # rs) b =
     register_resources s rs (b\<lparr>sessions := dict_set resource_uri s (sessions b)\<rparr>)"

text \<open>
  \<^verbatim>\<open>load_mcp_components\<close>: one \<^verbatim>\<open>try\<close> around the three listings. An exception
  leaves the \<^verbatim>\<open>try\<close> at the listing that raised it; what was stored before stays
  stored, and the handler only prints.
\<close>

definition load_mcp_components :: "provider \<Rightarrow> session \<Rightarrow> chatbot \<Rightarrow> chatbot" where
  "load_mcp_components p s b =
     (case list_tools p of
        Inl ex \<Rightarrow> say (Error_loading_component s ex) b
      | Inr tools \<Rightarrow>
          let b1 = register_tools s tools b in
          (case list_prompts p of
             Inl ex \<Rightarrow> say (Error_loading_component s ex) b1
           | Inr prompts_response \<Rightarrow>
               let b2 = (case prompts_response of
                           None \<Rightarrow> b1
                         | Some prompts \<Rightarrow>
                             if prompts = [] then b1 else register_prompts s prompts b1) in
               (case list_resources p of
                  Inl ex \<Rightarrow> say (Error_loading_component s ex) b2
                | Inr resources_response \<Rightarrow>
                    (case resources_response of
                       None \<Rightarrow> b2
                     | Some resources \<Rightarrow>
                         if resources = [] then b2
                         else register_resources s resources b2))))"

text \<open>
  \<^verbatim>\<open>connect_to_server\<close>: transport, session, handshake, then the listings, all inside
  one \<^verbatim>\<open>try\<close> whose handler prints and returns. The function never raises.
\<close>

definition connect_to_server :: "chatbot \<Rightarrow> string \<times> provider \<Rightarrow> chatbot" where
  "connect_to_server b entry =
     (let server_name = fst entry; p = snd entry in
      case (if run_locally b then stdio_client p else streamablehttp_client p) of
        Some ex \<Rightarrow> say (Error_connecting server_name ex) b
      | None \<Rightarrow>
          (case client_session p of
             Some ex \<Rightarrow> say (Error_connecting server_name ex) b
           | None \<Rightarrow>
               (case initialize p of
                  Some ex \<Rightarrow> say (Error_connecting server_name ex) b
                | None \<Rightarrow> load_mcp_components p (Session server_name) b)))"

text \<open>
  \<^verbatim>\<open>connectors_config\<close>, loaded from a file by code outside this class. When it is not
  a mapping, \<^verbatim>\<open>.get\<close> raises and \<^verbatim>\<open>connect_to_servers\<close> re-raises; when the key
  \<^verbatim>\<open>"mcpServers"\<close> is absent, the default \<^verbatim>\<open>{}\<close> is used. The entries are in the
  iteration order of the inner dictionary, each server name with the provider its
  configuration designates.
\<close>

datatype connectors_config =
    Not_a_mapping
  | Config "(string \<times> provider) list option"

fun connect_to_servers :: "chatbot \<Rightarrow> connectors_config \<Rightarrow> error + chatbot" where
  "connect_to_servers b Not_a_mapping = Inl (Exception ''Error loading server config'')"
| "connect_to_servers b (Config None) = Inr b"
| "connect_to_servers b (Config (Some servers)) = Inr (foldl connect_to_server b servers)"

subsection \<open>The conversation loop\<close>

text \<open>
  The remote operations of the conversation phase. The first argument of each is the
  history at the moment of the call. \<open>Inl\<close> is an exception raised by the call.
  \<^verbatim>\<open>read_resource\<close> and \<^verbatim>\<open>get_prompt\<close> answer with a response object
  (\<open>None\<close> when it is falsy) that holds a list.
\<close>

datatype resource_contents = Text_contents string | Blob_contents

datatype prompt_item = Item_text string | Item_other string

datatype prompt_content =
    Content_str string \<comment> \<open>\<^verbatim>\<open>isinstance(prompt_content, str)\<close>\<close>
  | Content_with_text string \<comment> \<open>\<^verbatim>\<open>hasattr(prompt_content, "text")\<close>\<close>
  | Content_items "prompt_item list" \<comment> \<open>anything else that can be iterated\<close>
  | Content_not_iterable

record env =
  messages_create :: "event list \<Rightarrow> tool_dict list \<Rightarrow> api_turn list \<Rightarrow> error + content list"
  call_tool :: "event list \<Rightarrow> session \<Rightarrow> string \<Rightarrow> string \<Rightarrow> error + string"
  read_resource :: "event list \<Rightarrow> session \<Rightarrow> string \<Rightarrow> error + resource_contents list option"
  get_prompt ::
    "event list \<Rightarrow> session \<Rightarrow> string \<Rightarrow> (string \<times> string) list
       \<Rightarrow> error + prompt_content list option"

text \<open>
  The local state of one call of \<^verbatim>\<open>process_query\<close>. The source appends the list
  object \<^verbatim>\<open>assistant_content\<close> itself to \<^verbatim>\<open>messages\<close> and goes on appending to
  that list, so an assistant turn is a reference: \<open>Assistant a\<close> points to the
  \<open>a\<close>-th list allocated by this call, kept in \<open>heap\<close>. \<open>events\<close> is the history.
\<close>

datatype turn =
    User_text string
  | Assistant nat
  | Tool_result string string

record conv =
  messages :: "turn list"
  heap :: "content list list"
  has_tool_use :: bool
  events :: "event list"

text \<open>Reading the list at an address. Every address in \<open>messages\<close> is allocated
  by \<open>start_round\<close> below before it is used (lemma \<open>process_query_allocated\<close>), so
  the guards of \<open>heap_at\<close> and \<open>heap_append\<close> never fail in a run of
  \<open>process_query\<close>.\<close>

definition heap_at :: "content list list \<Rightarrow> nat \<Rightarrow> content list" where
  "heap_at h a = (if a < length h then h ! a else [])"

text \<open>\<^verbatim>\<open>assistant_content.append(content)\<close> on the list at address \<open>a\<close>.\<close>

definition heap_append :: "nat \<Rightarrow> content \<Rightarrow> content list list \<Rightarrow> content list list" where
  "heap_append a x h = (if a < length h then h[a := h ! a @ [x]] else h)"

fun api_view :: "content list list \<Rightarrow> turn \<Rightarrow> api_turn" where
  "api_view h (User_text q) = User_says q"
| "api_view h (Assistant a) = Assistant_says (heap_at h a)"
| "api_view h (Tool_result i r) = User_tool_result i r"

text \<open>What \<^verbatim>\<open>messages=messages\<close> hands to the backend.\<close>

definition sent :: "conv \<Rightarrow> api_turn list" where
  "sent c = map (api_view (heap c)) (messages c)"

text \<open>How a loop body ends: it runs to its end, leaves by \<^verbatim>\<open>break\<close>, or raises.\<close>

datatype 'a flow = Normal 'a | Break 'a | Raise error 'a

text \<open>
  \<^verbatim>\<open>for content in response.content\<close>, with \<open>a\<close> the address of this round's
  \<^verbatim>\<open>assistant_content\<close>. There is no \<^verbatim>\<open>try\<close> around \<^verbatim>\<open>session.call_tool\<close>.
\<close>

fun content_loop :: "env \<Rightarrow> chatbot \<Rightarrow> nat \<Rightarrow> content list \<Rightarrow> conv \<Rightarrow> conv flow" where
  "content_loop env b a [] c = Normal c"
| "content_loop env b a (Text t # rest) c =
     content_loop env b a rest
       (c\<lparr>heap := heap_append a (Text t) (heap c),
          events := events c @ [Printed (Text_out t)]\<rparr>)"
| "content_loop env b a (Other_block ty # rest) c = content_loop env b a rest c"
| "content_loop env b a (Tool_use i n inp # rest) c =
     (let c1 = c\<lparr>has_tool_use := True,
                   heap := heap_append a (Tool_use i n inp) (heap c),
                   messages := messages c @ [Assistant a]\<rparr> in
      case dict_get (sessions b) n of
        None \<Rightarrow> Break (c1\<lparr>events := events c1 @ [Printed (Tool_not_found n)]\<rparr>)
      | Some s \<Rightarrow>
          (case call_tool env (events c1) s n inp of
             Inl ex \<Rightarrow> Raise ex (c1\<lparr>events := events c1 @ [Call_tool s n inp]\<rparr>)
           | Inr result \<Rightarrow>
               content_loop env b a rest
                 (c1\<lparr>events := events c1 @ [Call_tool s n inp],
                     messages := messages c1 @ [Tool_result i result]\<rparr>)))"

text \<open>The start of a round: the request is sent, and on an answer
  \<^verbatim>\<open>assistant_content = []\<close> and \<^verbatim>\<open>has_tool_use = False\<close>.\<close>

definition request :: "chatbot \<Rightarrow> conv \<Rightarrow> event" where
  "request b c = Backend_request (available_tools b) (sent c)"

definition start_round :: "chatbot \<Rightarrow> conv \<Rightarrow> conv" where
  "start_round b c =
     c\<lparr>events := events c @ [request b c], heap := heap c @ [[]], has_tool_use := False\<rparr>"

text \<open>
  \<^verbatim>\<open>while True\<close>. The source puts no bound on the number of rounds, so the model
  counts them: \<open>fuel\<close> is the number of backend requests still allowed, and
  \<open>Out_of_fuel\<close> hands back the state reached. The \<^verbatim>\<open>break\<close> of the inner loop leaves
  the inner loop only; both ways out of it reach \<^verbatim>\<open>if not has_tool_use: break\<close>.
\<close>

datatype outcome = Returned conv | Raised error conv | Out_of_fuel conv

fun process_query_loop :: "env \<Rightarrow> chatbot \<Rightarrow> nat \<Rightarrow> conv \<Rightarrow> outcome" where
  "process_query_loop env b 0 c = Out_of_fuel c"
| "process_query_loop env b (Suc fuel) c =
     (case messages_create env (events c) (available_tools b) (sent c) of
        Inl ex \<Rightarrow> Raised ex (c\<lparr>events := events c @ [request b c]\<rparr>)
      | Inr response_content \<Rightarrow>
          (case content_loop env b (length (heap c)) response_content (start_round b c) of
             Raise ex c' \<Rightarrow> Raised ex c'
           | Normal c' \<Rightarrow>
               if \<not> has_tool_use c' then Returned c' else process_query_loop env b fuel c'
           | Break c' \<Rightarrow>
               if \<not> has_tool_use c' then Returned c' else process_query_loop env b fuel c'))"

definition process_query :: "env \<Rightarrow> chatbot \<Rightarrow> nat \<Rightarrow> string \<Rightarrow> outcome" where
  "process_query env b fuel query =
     process_query_loop env b fuel
       \<lparr>messages = [User_text query], heap = [], has_tool_use = False, events = history b\<rparr>"

fun events_of :: "outcome \<Rightarrow> event list" where
  "events_of (Returned c) = events c"
| "events_of (Raised ex c) = events c"
| "events_of (Out_of_fuel c) = events c"

subsection \<open>Resources, prompts and the chat loop\<close>

text \<open>The \<^verbatim>\<open>for uri, sess in self.sessions.items()\<close> of \<^verbatim>\<open>get_resource\<close>: the
  first key that starts with \<^verbatim>\<open>papers://\<close>, whatever kind of capability stored it.\<close>

fun papers_fallback :: "(string \<times> session) list \<Rightarrow> session option" where
  "papers_fallback [] = None"
| "papers_fallback ((uri, sess) # rest) =
     (if prefix ''papers://'' uri then Some sess else papers_fallback rest)"

definition resolve_resource :: "chatbot \<Rightarrow> string \<Rightarrow> session option" where
  "resolve_resource b resource_uri =
     (let session = dict_get (sessions b) resource_uri in
      if session = None \<and> prefix ''papers://'' resource_uri
      then papers_fallback (sessions b) else session)"

text \<open>
  \<^verbatim>\<open>get_resource\<close>. A first content object without a \<^verbatim>\<open>text\<close> attribute raises
  \<^verbatim>\<open>AttributeError\<close> after the two headers are printed; the handler prints it.
\<close>

definition get_resource :: "env \<Rightarrow> chatbot \<Rightarrow> string \<Rightarrow> chatbot" where
  "get_resource env b resource_uri =
     (case resolve_resource b resource_uri of
        None \<Rightarrow> say (Resource_not_found resource_uri) b
      | Some s \<Rightarrow>
          (let b1 = b\<lparr>history := history b @ [Read_resource s resource_uri]\<rparr> in
           case read_resource env (history b) s resource_uri of
             Inl ex \<Rightarrow> say (Error_getting_resource resource_uri ex) b1
           | Inr None \<Rightarrow> say No_content b1
           | Inr (Some []) \<Rightarrow> say No_content b1
           | Inr (Some (Text_contents text # _)) \<Rightarrow>
               say (Content_text text) (say Content_header (say (Resource_header resource_uri) b1))
           | Inr (Some (Blob_contents # _)) \<Rightarrow>
               say (Error_getting_resource resource_uri (Exception ''AttributeError''))
                 (say Content_header (say (Resource_header resource_uri) b1))))"








subsection \<open>Vocabulary of the statements\<close>

text \<open>The list of a listing response, empty for a falsy response.\<close>

fun the_list :: "'a list option \<Rightarrow> 'a list" where
  "the_list None = []"
| "the_list (Some xs) = xs"

text \<open>The three steps of \<^verbatim>\<open>connect_to_server\<close> before the listings all succeed
  (the transport is the one \<^verbatim>\<open>run_locally\<close> selects).\<close>

definition connects :: "bool \<Rightarrow> provider \<Rightarrow> bool" where
  "connects local p \<longleftrightarrow>
     (if local then stdio_client p else streamablehttp_client p) = None \<and>
     client_session p = None \<and> initialize p = None"

text \<open>What a provider declares: the lists its listing requests return (nothing when the
  request raises).\<close>

definition declared_tools :: "provider \<Rightarrow> tool list" where
  "declared_tools p = (case list_tools p of Inl ex \<Rightarrow> [] | Inr tools \<Rightarrow> tools)"

definition declared_prompts :: "provider \<Rightarrow> prompt list" where
  "declared_prompts p = (case list_prompts p of Inl ex \<Rightarrow> [] | Inr r \<Rightarrow> the_list r)"

definition declared_resources :: "provider \<Rightarrow> string list" where
  "declared_resources p = (case list_resources p of Inl ex \<Rightarrow> [] | Inr r \<Rightarrow> the_list r)"

text \<open>Every name and URI the three listings of a provider declare.\<close>

definition declared_keys :: "provider \<Rightarrow> string set" where
  "declared_keys p =
     tool_name ` set (declared_tools p) \<union> prompt_name ` set (declared_prompts p) \<union>
     set (declared_resources p)"

text \<open>The dictionary \<^verbatim>\<open>load_mcp_components\<close> builds for a tool.\<close>

definition tool_entry :: "tool \<Rightarrow> tool_dict" where
  "tool_entry t = Tool_dict (tool_name t) (tool_description t) (tool_inputSchema t)"

text \<open>The tool dictionaries one provider adds to \<^verbatim>\<open>available_tools\<close>.\<close>

definition tools_added :: "bool \<Rightarrow> provider \<Rightarrow> tool_dict list" where
  "tools_added local p = (if connects local p then map tool_entry (declared_tools p) else [])"

text \<open>The chatbot without its history: the attributes of the object.\<close>

definition forget :: "chatbot \<Rightarrow> chatbot" where
  "forget b = b\<lparr>history := []\<rparr>"

text \<open>The provider connects and none of its three listing requests raises.\<close>

definition listings_succeed :: "bool \<Rightarrow> provider \<Rightarrow> bool" where
  "listings_succeed local p \<longleftrightarrow>
     connects local p \<and> (\<exists>ts. list_tools p = Inr ts) \<and>
     (\<exists>r. list_prompts p = Inr r) \<and> (\<exists>r. list_resources p = Inr r)"

text \<open>The provider of \<^verbatim>\<open>src/server/mcp_server.py\<close>: two tools, one prompt, one listed
  resource (\<^verbatim>\<open>papers://{topic}\<close> is a template and is not listed).\<close>

definition research :: provider where
  "research =
     \<lparr>stdio_client = None, streamablehttp_client = None, client_session = None,
      initialize = None,
      list_tools = Inr [Tool ''search_papers'' ''Search for papers on arXiv'' ''topic, max_results'',
                        Tool ''extract_info'' ''Information about a paper'' ''paper_id''],
      list_prompts = Inr (Some [Prompt ''generate_search_prompt'' ''Find and discuss papers''
                                  [''topic'', ''num_papers'']]),
      list_resources = Inr (Some [''papers://folders''])\<rparr>"

text \<open>A second provider that declares a tool of the same name.\<close>

definition mirror :: provider where
  "mirror = research\<lparr>list_tools := Inr [Tool ''search_papers'' ''Search a mirror'' ''topic''],
                     list_prompts := Inr None, list_resources := Inr (Some [])\<rparr>"

text \<open>Providers that fail: one whose \<^verbatim>\<open>list_prompts\<close> raises, one whose transport
  cannot be opened. And one that declares only a prompt, named like a tool.\<close>

definition flaky :: provider where
  "flaky = research\<lparr>list_prompts := Inl (Exception ''list_prompts timed out'')\<rparr>"

definition unreachable :: provider where
  "unreachable = research\<lparr>stdio_client := Some (Exception ''command not found'')\<rparr>"

definition prompt_only :: provider where
  "prompt_only =
     research\<lparr>list_tools := Inr [],
              list_prompts := Inr (Some [Prompt ''search_papers'' ''A prompt'' [''topic'']]),
              list_resources := Inr None\<rparr>"

text \<open>A provider whose \<^verbatim>\<open>list_resources\<close> raises, after its tools and its prompt
  were listed.\<close>

definition flaky_resources :: provider where
  "flaky_resources = research\<lparr>list_resources := Inl (Exception ''list_resources timed out'')\<rparr>"

text \<open>The dictionary \<^verbatim>\<open>load_mcp_components\<close> builds for a prompt.\<close>

definition prompt_entry :: "prompt \<Rightarrow> prompt_dict" where
  "prompt_entry q = Prompt_dict (prompt_name q) (prompt_description q) (prompt_arguments q)"

text \<open>\<^verbatim>\<open>get_resource\<close> routes a request to a session: it sends that session one
  \<^verbatim>\<open>read_resource\<close> for the URI and, after it, only prints.\<close>

definition routes_to :: "env \<Rightarrow> chatbot \<Rightarrow> string \<Rightarrow> session \<Rightarrow> bool" where
  "routes_to env b resource_uri s \<longleftrightarrow>
     (\<exists>notices. history (get_resource env b resource_uri) =
        history b @ Read_resource s resource_uri # map Printed notices)"

text \<open>The chatbot after startup with the one provider of the repository, and a world in
  which every remote call succeeds and the model asks for no tool.\<close>

definition research_bot :: chatbot where
  "research_bot = connect_to_server (init_chatbot True) (''research'', research)"

definition quiet_env :: env where
  "quiet_env =
     \<lparr>messages_create = (\<lambda>h tools msgs. Inr [Text ''Done.'']),
      call_tool = (\<lambda>h s n inp. Inr ''[]''),
      read_resource = (\<lambda>h s uri. Inr (Some [Text_contents ''# Available Topics''])),
      get_prompt = (\<lambda>h s n args. Inr (Some [Content_with_text ''Search for 5 papers'']))\<rparr>"

text \<open>What the inner loop does with the blocks that are not tool requests: a text block
  is printed and kept in \<^verbatim>\<open>assistant_content\<close>; any other block is skipped.\<close>

fun texts :: "content list \<Rightarrow> content list" where
  "texts [] = []"
| "texts (Text t # rest) = Text t # texts rest"
| "texts (c # rest) = texts rest"

fun text_events :: "content list \<Rightarrow> event list" where
  "text_events [] = []"
| "text_events (Text t # rest) = Printed (Text_out t) # text_events rest"
| "text_events (c # rest) = text_events rest"

text \<open>Several \<open>heap_append\<close> in a row, and the state a \<open>flow\<close> carries.\<close>

definition heap_extend :: "nat \<Rightarrow> content list \<Rightarrow> content list list \<Rightarrow> content list list" where
  "heap_extend a xs h = (if a < length h then h[a := h ! a @ xs] else h)"

fun flow_state :: "'a flow \<Rightarrow> 'a" where
  "flow_state (Normal c) = c"
| "flow_state (Break c) = c"
| "flow_state (Raise ex c) = c"

text \<open>Worlds for the examples. In the first the model asks for one tool and the call
  raises; in the second it first speaks; in the third it asks for three tools, the
  second of which no provider declares, and is content afterwards.\<close>

definition broken_tool_env :: env where
  "broken_tool_env =
     quiet_env\<lparr>messages_create :=
                  (\<lambda>h tools msgs. Inr [Tool_use ''toolu_01'' ''search_papers'' ''topic=graphs'']),
                call_tool := (\<lambda>h s n inp. Inl (Exception ''connection lost''))\<rparr>"

definition spoken_broken_env :: env where
  "spoken_broken_env =
     quiet_env\<lparr>messages_create :=
                  (\<lambda>h tools msgs. Inr [Text ''Let me search.'',
                                       Tool_use ''toolu_01'' ''extract_info'' ''paper_id=1'']),
                call_tool := (\<lambda>h s n inp. Inl (Exception ''connection lost''))\<rparr>"

definition unknown_tool_env :: env where
  "unknown_tool_env =
     quiet_env\<lparr>messages_create :=
                  (\<lambda>h tools msgs.
                     if length msgs = 1
                     then Inr [Tool_use ''toolu_01'' ''search_papers'' ''topic=graphs'',
                               Tool_use ''toolu_02'' ''translate'' ''lang=fr'',
                               Tool_use ''toolu_03'' ''extract_info'' ''paper_id=1'']
                     else Inr [Text ''Done.''])\<rparr>"


text \<open>Every assistant turn of a conversation points into its heap.\<close>

definition allocated :: "conv \<Rightarrow> bool" where
  "allocated c \<longleftrightarrow> (\<forall>a. Assistant a \<in> set (messages c) \<longrightarrow> a < length (heap c))"

fun conv_of :: "outcome \<Rightarrow> conv" where
  "conv_of (Returned c) = c"
| "conv_of (Raised ex c) = c"
| "conv_of (Out_of_fuel c) = c"

section \<open>Properties\<close>

subsection \<open>The registry\<close>

lemma dict_get_set: "dict_get (dict_set k v d) k' = (if k' = k then Some v else dict_get d k')"
  by (induction d) (auto simp: dict_get_def)

lemma register_tools_sessions:
  "dict_get (sessions (register_tools s ts b)) k =
     (if k \<in> tool_name ` set ts then Some s else dict_get (sessions b) k)"
  by (induction ts arbitrary: b) (auto simp: dict_get_set)

lemma register_tools_frame:
  "available_tools (register_tools s ts b) = available_tools b @ map tool_entry ts"
  "available_prompts (register_tools s ts b) = available_prompts b"
  "history (register_tools s ts b) = history b"
  "run_locally (register_tools s ts b) = run_locally b"
  by (induction ts arbitrary: b) (auto simp: tool_entry_def)

lemma register_prompts_sessions:
  "dict_get (sessions (register_prompts s ps b)) k =
     (if k \<in> prompt_name ` set ps then Some s else dict_get (sessions b) k)"
  by (induction ps arbitrary: b) (auto simp: dict_get_set)

lemma register_prompts_frame:
  "available_tools (register_prompts s ps b) = available_tools b"
  "history (register_prompts s ps b) = history b"
  "run_locally (register_prompts s ps b) = run_locally b"
  by (induction ps arbitrary: b) auto

lemma register_resources_sessions:
  "dict_get (sessions (register_resources s rs b)) k =
     (if k \<in> set rs then Some s else dict_get (sessions b) k)"
  by (induction rs arbitrary: b) (auto simp: dict_get_set)

lemma register_resources_frame:
  "available_tools (register_resources s rs b) = available_tools b"
  "available_prompts (register_resources s rs b) = available_prompts b"
  "history (register_resources s rs b) = history b"
  "run_locally (register_resources s rs b) = run_locally b"
  by (induction rs arbitrary: b) auto

lemma say_frame:
  "sessions (say n b) = sessions b" "available_tools (say n b) = available_tools b"
  "available_prompts (say n b) = available_prompts b" "run_locally (say n b) = run_locally b"
  "history (say n b) = history b @ [Printed n]"
  by (simp_all add: say_def)

lemma load_run_locally: "run_locally (load_mcp_components p s b) = run_locally b"
  by (auto simp: load_mcp_components_def Let_def say_frame register_tools_frame
      register_prompts_frame register_resources_frame split: sum.splits option.splits)

lemma load_other_key:
  "k \<notin> declared_keys p \<Longrightarrow>
   dict_get (sessions (load_mcp_components p s b)) k = dict_get (sessions b) k"
  by (auto simp: load_mcp_components_def Let_def say_frame register_tools_sessions
      register_prompts_sessions register_resources_sessions declared_keys_def
      declared_tools_def declared_prompts_def declared_resources_def
      split: sum.splits option.splits)

lemma load_tool_key:
  "list_tools p = Inr ts \<Longrightarrow> k \<in> tool_name ` set ts \<Longrightarrow>
   dict_get (sessions (load_mcp_components p s b)) k = Some s"
  by (auto simp: load_mcp_components_def Let_def say_frame register_tools_sessions
      register_prompts_sessions register_resources_sessions
      split: sum.splits option.splits)

lemma load_available_tools:
  "available_tools (load_mcp_components p s b) = available_tools b @ map tool_entry (declared_tools p)"
  by (auto simp: load_mcp_components_def Let_def say_frame register_tools_frame
      register_prompts_frame register_resources_frame declared_tools_def
      split: sum.splits option.splits)

lemma connect_run_locally: "run_locally (connect_to_server b q) = run_locally b"
  by (auto simp: connect_to_server_def Let_def say_frame load_run_locally split: option.splits)

lemma connect_other_key:
  "k \<notin> declared_keys (snd q) \<Longrightarrow>
   dict_get (sessions (connect_to_server b q)) k = dict_get (sessions b) k"
  by (auto simp: connect_to_server_def Let_def say_frame load_other_key split: option.splits)

lemma connect_tool_key:
  "connects (run_locally b) (snd q) \<Longrightarrow> list_tools (snd q) = Inr ts \<Longrightarrow>
   k \<in> tool_name ` set ts \<Longrightarrow>
   dict_get (sessions (connect_to_server b q)) k = Some (Session (fst q))"
  by (auto simp: connect_to_server_def Let_def connects_def load_tool_key split: option.splits)

lemma connect_available_tools:
  "available_tools (connect_to_server b q) =
     available_tools b @ tools_added (run_locally b) (snd q)"
  by (auto simp: connect_to_server_def Let_def connects_def say_frame load_available_tools
      tools_added_def split: option.splits if_splits)

lemma foldl_run_locally: "run_locally (foldl connect_to_server b qs) = run_locally b"
  by (induction qs arbitrary: b) (auto simp: connect_run_locally)

lemma foldl_other_key:
  "\<forall>q\<in>set qs. k \<notin> declared_keys (snd q) \<Longrightarrow>
   dict_get (sessions (foldl connect_to_server b qs)) k = dict_get (sessions b) k"
  by (induction qs arbitrary: b) (auto simp: connect_other_key)

lemma foldl_available_tools:
  "available_tools (foldl connect_to_server b qs) =
     available_tools b @ concat (map (\<lambda>q. tools_added (run_locally b) (snd q)) qs)"
  by (induction qs arbitrary: b) (auto simp: connect_available_tools connect_run_locally)

lemma forget_say: "forget (say n b) = forget b"
  by (simp add: forget_def say_def)

lemma forget_idem: "forget (forget b) = forget b"
  by (simp add: forget_def)

lemma register_tools_eq:
  "register_tools s ts b =
     b\<lparr>sessions := fold (\<lambda>t. dict_set (tool_name t) s) ts (sessions b),
       available_tools := available_tools b @ map tool_entry ts\<rparr>"
  by (induction ts arbitrary: b) (simp_all add: tool_entry_def)

lemma register_prompts_eq:
  "register_prompts s ps b =
     b\<lparr>sessions := fold (\<lambda>p. dict_set (prompt_name p) s) ps (sessions b),
       available_prompts := available_prompts b @
         map (\<lambda>p. Prompt_dict (prompt_name p) (prompt_description p) (prompt_arguments p)) ps\<rparr>"
  by (induction ps arbitrary: b) simp_all

lemma register_resources_eq:
  "register_resources s rs b = b\<lparr>sessions := fold (\<lambda>r. dict_set r s) rs (sessions b)\<rparr>"
  by (induction rs arbitrary: b) simp_all

lemma forget_register:
  "forget (register_tools s ts (forget b)) = forget (register_tools s ts b)"
  "forget (register_prompts s ps (forget b)) = forget (register_prompts s ps b)"
  "forget (register_resources s rs (forget b)) = forget (register_resources s rs b)"
  by (simp_all add: register_tools_eq register_prompts_eq register_resources_eq forget_def)

lemma forget_load: "forget (load_mcp_components p s (forget b)) = forget (load_mcp_components p s b)"
  by (simp add: load_mcp_components_def Let_def register_tools_eq register_prompts_eq
      register_resources_eq forget_def say_def split: sum.splits option.splits)

lemma forget_connect: "forget (connect_to_server (forget b) q) = forget (connect_to_server b q)"
proof -
  have rl: "run_locally (forget b) = run_locally b" by (simp add: forget_def)
  show ?thesis
    by (simp add: connect_to_server_def Let_def rl forget_say forget_idem forget_load split: option.splits)
qed

lemma forget_foldl:
  "forget b = forget b' \<Longrightarrow>
   forget (foldl connect_to_server b qs) = forget (foldl connect_to_server b' qs)"
proof (induction qs arbitrary: b b')
  case Nil
  then show ?case by simp
next
  case (Cons q qs)
  have "forget (connect_to_server b q) = forget (connect_to_server b' q)"
    using Cons.prems forget_connect [of b q] forget_connect [of b' q] by metis
  then show ?case using Cons.IH [of "connect_to_server b q" "connect_to_server b' q"] by simp
qed

lemma forget_fields:
  "forget b = forget b' \<Longrightarrow>
   sessions b = sessions b' \<and> available_tools b = available_tools b' \<and>
   available_prompts b = available_prompts b' \<and> run_locally b = run_locally b'"
  by (cases b, cases b') (simp add: forget_def)

lemma init_fields:
  "run_locally (init_chatbot local) = local" "sessions (init_chatbot local) = []"
  "available_tools (init_chatbot local) = []" "available_prompts (init_chatbot local) = []"
  "history (init_chatbot local) = []"
  by (simp_all add: init_chatbot_def)

lemma tools_added_connects:
  "connects local p \<Longrightarrow> tools_added local p = map tool_entry (declared_tools p)"
  by (simp add: tools_added_def)

lemma foldl_tool_key:
  assumes "connects (run_locally b) p" "list_tools p = Inr ts" "k \<in> tool_name ` set ts"
    and "\<forall>q\<in>set qs. k \<notin> declared_keys (snd q)"
  shows "dict_get (sessions (foldl connect_to_server b (ps @ (n, p) # qs))) k = Some (Session n)"
proof -
  let ?b1 = "foldl connect_to_server b ps"
  have "connects (run_locally ?b1) (snd (n, p))" using assms(1) by (simp add: foldl_run_locally)
  then have "dict_get (sessions (connect_to_server ?b1 (n, p))) k = Some (Session (fst (n, p)))"
    using assms(2,3) by (intro connect_tool_key) simp_all
  then show ?thesis using assms(4) by (simp add: foldl_other_key)
qed

text \<open>
  Claim C8 (registry completeness). Every configured provider connects and none of its
  listing requests raises. Then, after \<^verbatim>\<open>connect_to_servers\<close> on a fresh chatbot,
  \<^verbatim>\<open>available_tools\<close> has as many entries as the providers declare tools in total,
  and a tool name that no other provider declares (as a tool, a prompt or a resource:
  the routing dictionary is shared) resolves to the session of the provider that
  declared it.
\<close>

theorem registry_completeness:
  assumes "\<forall>q\<in>set servers. listings_succeed local (snd q)"
  shows "\<exists>b'. connect_to_servers (init_chatbot local) (Config (Some servers)) = Inr b' \<and>
           length (available_tools b') =
             sum_list (map (\<lambda>q. length (declared_tools (snd q))) servers) \<and>
           (\<forall>ps1 n p ps2 t.
              servers = ps1 @ (n, p) # ps2 \<and> t \<in> set (declared_tools p) \<and>
              (\<forall>q\<in>set (ps1 @ ps2). tool_name t \<notin> declared_keys (snd q))
              \<longrightarrow> dict_get (sessions b') (tool_name t) = Some (Session n))"
proof -
  let ?b' = "foldl connect_to_server (init_chatbot local) servers"
  have all: "\<forall>q\<in>set servers. connects local (snd q)"
    using assms by (simp add: listings_succeed_def)
  have "concat (map (\<lambda>q. tools_added local (snd q)) servers) =
        concat (map (\<lambda>q. map tool_entry (declared_tools (snd q))) servers)"
    by (intro arg_cong [where f = concat] map_cong refl) (simp add: all tools_added_connects)
  then have "available_tools ?b' = concat (map (\<lambda>q. map tool_entry (declared_tools (snd q))) servers)"
    by (simp only: foldl_available_tools init_fields append_Nil)
  then have len: "length (available_tools ?b') =
      sum_list (map (\<lambda>q. length (declared_tools (snd q))) servers)"
    by (simp add: length_concat comp_def)
  have route: "dict_get (sessions ?b') (tool_name t) = Some (Session n)"
    if "servers = ps1 @ (n, p) # ps2" "t \<in> set (declared_tools p)"
       "\<forall>q\<in>set (ps1 @ ps2). tool_name t \<notin> declared_keys (snd q)" for ps1 n p ps2 t
  proof -
    have "listings_succeed local p" using assms that(1) by simp
    then obtain ts where c: "connects local p" and ts: "list_tools p = Inr ts"
      by (auto simp: listings_succeed_def)
    have "t \<in> set ts" using that(2) ts by (simp add: declared_tools_def)
    then have "tool_name t \<in> tool_name ` set ts" by simp
    then show ?thesis
      unfolding that(1) using c ts that(3)
      by (intro foldl_tool_key) (simp_all add: init_fields)
  qed
  show ?thesis using len route by simp
qed

theorem registry_completeness_witness:
  "listings_succeed True research \<and> listings_succeed True (mirror\<lparr>list_tools := Inr []\<rparr>) \<and>
   (\<exists>b'. connect_to_servers (init_chatbot True)
            (Config (Some [(''research'', research), (''empty'', mirror\<lparr>list_tools := Inr []\<rparr>)])) = Inr b' \<and>
      length (available_tools b') = 2 \<and>
      dict_get (sessions b') ''extract_info'' = Some (Session ''research''))"
proof -
  let ?e = "mirror\<lparr>list_tools := Inr []\<rparr>"
  let ?servers = "[(''research'', research), (''empty'', ?e)]"
  have ok: "listings_succeed True research" "listings_succeed True ?e"
    by (simp_all add: listings_succeed_def connects_def research_def mirror_def)
  then have "\<forall>q\<in>set ?servers. listings_succeed True (snd q)" by simp
  from registry_completeness [OF this] obtain b' where
    b: "connect_to_servers (init_chatbot True) (Config (Some ?servers)) = Inr b'"
    and len: "length (available_tools b') =
               sum_list (map (\<lambda>q. length (declared_tools (snd q))) ?servers)"
    and route: "\<And>ps1 n p ps2 t. ?servers = ps1 @ (n, p) # ps2 \<Longrightarrow> t \<in> set (declared_tools p) \<Longrightarrow>
              (\<forall>q\<in>set (ps1 @ ps2). tool_name t \<notin> declared_keys (snd q))
              \<Longrightarrow> dict_get (sessions b') (tool_name t) = Some (Session n)"
    by blast
  have "length (available_tools b') = 2"
    using len by (simp add: declared_tools_def research_def mirror_def)
  moreover have "dict_get (sessions b') (tool_name (Tool ''extract_info'' ''Information about a paper'' ''paper_id''))
       = Some (Session ''research'')"
    by (rule route [of "[]" _ research "[(''empty'', ?e)]"])
       (simp_all add: declared_tools_def declared_prompts_def declared_resources_def
          declared_keys_def research_def mirror_def)
  ultimately show ?thesis using ok b by auto
qed

lemma subseq_pair:
  "x \<in> set xs \<Longrightarrow> y \<in> set ys \<Longrightarrow> subseq [x, y] (as @ xs @ bs @ ys @ cs)"
proof -
  assume "x \<in> set xs" "y \<in> set ys"
  then have "subseq [x] (as @ xs)" "subseq [y] (bs @ ys @ cs)"
    by (auto simp: subseq_singleton_left)
  then have "subseq ([x] @ [y]) ((as @ xs) @ (bs @ ys @ cs))"
    by (rule list_emb_append_mono)
  then show ?thesis by simp
qed

text \<open>
  Claim C3 (last registered wins). Two providers that connect and both declare a tool
  named \<open>X\<close>: after the registry build \<open>X\<close> resolves to the session of the one
  connected later, provided no provider connected after it declares \<open>X\<close> again, and
  \<^verbatim>\<open>available_tools\<close> holds the declaration of the earlier one followed by the
  declaration of the later one. Other providers may stand before, between and after
  the two.
\<close>

theorem last_registered_wins:
  assumes "connects local p1" and "connects local p2"
    and "list_tools p1 = Inr ts1" and "list_tools p2 = Inr ts2"
    and "t1 \<in> set ts1" and "t2 \<in> set ts2"
    and "tool_name t1 = X" and "tool_name t2 = X"
    and "\<forall>q\<in>set ps3. X \<notin> declared_keys (snd q)"
  shows "\<exists>b'. connect_to_servers (init_chatbot local)
                 (Config (Some (ps1 @ (n1, p1) # ps2 @ (n2, p2) # ps3))) = Inr b' \<and>
              dict_get (sessions b') X = Some (Session n2) \<and>
              subseq [Tool_dict X (tool_description t1) (tool_inputSchema t1),
                      Tool_dict X (tool_description t2) (tool_inputSchema t2)]
                (available_tools b')"
proof -
  let ?servers = "ps1 @ (n1, p1) # ps2 @ (n2, p2) # ps3"
  let ?b' = "foldl connect_to_server (init_chatbot local) ?servers"
  have "X \<in> tool_name ` set ts2" using assms(6,8) by auto
  then have "dict_get (sessions (foldl connect_to_server (init_chatbot local)
                 ((ps1 @ (n1, p1) # ps2) @ (n2, p2) # ps3))) X = Some (Session n2)"
    using assms(2,4,9) by (intro foldl_tool_key) (simp_all add: init_fields)
  then have route: "dict_get (sessions ?b') X = Some (Session n2)" by simp
  have e1: "Tool_dict X (tool_description t1) (tool_inputSchema t1) \<in> set (tools_added local p1)"
    using assms(1,3,5,7) by (auto simp: tools_added_def declared_tools_def tool_entry_def)
  have e2: "Tool_dict X (tool_description t2) (tool_inputSchema t2) \<in> set (tools_added local p2)"
    using assms(2,4,6,8) by (auto simp: tools_added_def declared_tools_def tool_entry_def)
  have "available_tools ?b' =
          concat (map (\<lambda>q. tools_added local (snd q)) ps1) @ tools_added local p1 @
          concat (map (\<lambda>q. tools_added local (snd q)) ps2) @ tools_added local p2 @
          concat (map (\<lambda>q. tools_added local (snd q)) ps3)"
    by (simp only: foldl_available_tools init_fields) simp
  then have "subseq [Tool_dict X (tool_description t1) (tool_inputSchema t1),
                     Tool_dict X (tool_description t2) (tool_inputSchema t2)] (available_tools ?b')"
    using subseq_pair [OF e1 e2] by simp
  then show ?thesis using route by simp
qed

theorem last_registered_wins_witness:
  "\<exists>b'. connect_to_servers (init_chatbot True)
          (Config (Some [(''research'', research), (''mirror'', mirror)])) = Inr b' \<and>
        dict_get (sessions b') ''search_papers'' = Some (Session ''mirror'') \<and>
        subseq [Tool_dict ''search_papers'' ''Search for papers on arXiv'' ''topic, max_results'',
                Tool_dict ''search_papers'' ''Search a mirror'' ''topic'']
          (available_tools b')"
proof -
  have c: "connects True research" "connects True mirror"
    by (simp_all add: connects_def research_def mirror_def)
  have l1: "list_tools research =
      Inr [Tool ''search_papers'' ''Search for papers on arXiv'' ''topic, max_results'',
           Tool ''extract_info'' ''Information about a paper'' ''paper_id'']"
    by (simp add: research_def)
  have l2: "list_tools mirror = Inr [Tool ''search_papers'' ''Search a mirror'' ''topic'']"
    by (simp add: mirror_def research_def)
  show ?thesis
    using last_registered_wins [OF c l1 l2, of
        "Tool ''search_papers'' ''Search for papers on arXiv'' ''topic, max_results''"
        "Tool ''search_papers'' ''Search a mirror'' ''topic''" "''search_papers''" "[]" "[]"
        "''research''" "[]" "''mirror''"]
    by simp
qed

text \<open>
  Claim C10 (registration is not atomic). \<^verbatim>\<open>list_tools\<close> succeeds and
  \<^verbatim>\<open>list_prompts\<close> or \<^verbatim>\<open>list_resources\<close> raises: after the handler of
  \<^verbatim>\<open>load_mcp_components\<close> has printed the error, every tool of the provider still
  resolves to its session and is still listed in \<^verbatim>\<open>available_tools\<close>.
\<close>

theorem registration_not_atomic:
  assumes "list_tools p = Inr ts"
    and "list_prompts p = Inl ex \<or> (\<exists>r. list_prompts p = Inr r \<and> list_resources p = Inl ex)"
  shows "(\<forall>t\<in>set ts. dict_get (sessions (load_mcp_components p s b)) (tool_name t) = Some s) \<and>
         available_tools (load_mcp_components p s b) =
           available_tools b @
           map (\<lambda>t. Tool_dict (tool_name t) (tool_description t) (tool_inputSchema t)) ts \<and>
         history (load_mcp_components p s b) =
           history b @ [Printed (Error_loading_component s ex)]"
proof -
  have "\<forall>t\<in>set ts. dict_get (sessions (load_mcp_components p s b)) (tool_name t) = Some s"
    using assms(1) by (simp add: load_tool_key)
  moreover have "available_tools (load_mcp_components p s b) =
           available_tools b @
           map (\<lambda>t. Tool_dict (tool_name t) (tool_description t) (tool_inputSchema t)) ts"
    using assms(1) load_available_tools [of p s b]
    by (simp add: declared_tools_def tool_entry_def [abs_def])
  moreover have "history (load_mcp_components p s b) =
           history b @ [Printed (Error_loading_component s ex)]"
    using assms
    by (auto simp: load_mcp_components_def Let_def say_frame register_tools_frame
        register_prompts_frame register_resources_frame split: option.splits)
  ultimately show ?thesis by simp
qed

theorem registration_not_atomic_witness:
  "dict_get (sessions (load_mcp_components flaky (Session ''research'') (init_chatbot True)))
      ''search_papers'' = Some (Session ''research'') \<and>
   length (available_tools (load_mcp_components flaky (Session ''research'') (init_chatbot True))) = 2 \<and>
   history (load_mcp_components flaky (Session ''research'') (init_chatbot True)) =
     [Printed (Error_loading_component (Session ''research'') (Exception ''list_prompts timed out''))]"
proof -
  have l: "list_tools flaky =
      Inr [Tool ''search_papers'' ''Search for papers on arXiv'' ''topic, max_results'',
           Tool ''extract_info'' ''Information about a paper'' ''paper_id'']"
    by (simp add: flaky_def research_def)
  have f: "list_prompts flaky = Inl (Exception ''list_prompts timed out'') \<or>
           (\<exists>r. list_prompts flaky = Inr r \<and>
                list_resources flaky = Inl (Exception ''list_prompts timed out''))"
    by (simp add: flaky_def)
  show ?thesis
    using registration_not_atomic [OF l f, of "Session ''research''" "init_chatbot True"]
    by (simp add: init_fields)
qed

lemma connect_early_failure:
  assumes "\<not> connects (run_locally b) p \<or> (\<exists>ex. list_tools p = Inl ex)"
  shows "\<exists>ex. connect_to_server b (n, p) = say (Error_connecting n ex) b \<or>
              connect_to_server b (n, p) = say (Error_loading_component (Session n) ex) b"
  using assms
  by (auto simp: connect_to_server_def connects_def load_mcp_components_def
      split: option.splits if_splits)

lemma load_failure_notice:
  assumes "(\<exists>ex. list_tools p = Inl ex) \<or> (\<exists>ex. list_prompts p = Inl ex) \<or>
           (\<exists>ex. list_resources p = Inl ex)"
  shows "\<exists>ex. history (load_mcp_components p s b) =
              history b @ [Printed (Error_loading_component s ex)]"
  using assms
  by (auto simp: load_mcp_components_def Let_def say_frame register_tools_frame
      register_prompts_frame register_resources_frame split: sum.splits option.splits)

lemma connect_failure_notice:
  assumes "\<not> listings_succeed (run_locally b) p"
  shows "\<exists>ex. history (connect_to_server b (n, p)) = history b @ [Printed (Error_connecting n ex)] \<or>
              history (connect_to_server b (n, p)) =
                history b @ [Printed (Error_loading_component (Session n) ex)]"
proof (cases "connects (run_locally b) p")
  case False
  then show ?thesis
    by (auto simp: connect_to_server_def connects_def say_frame split: option.splits if_splits)
next
  case True
  then have eq: "connect_to_server b (n, p) = load_mcp_components p (Session n) b"
    by (auto simp: connect_to_server_def connects_def split: if_splits)
  have "(\<exists>ex. list_tools p = Inl ex) \<or> (\<exists>ex. list_prompts p = Inl ex) \<or>
        (\<exists>ex. list_resources p = Inl ex)"
    using assms True unfolding listings_succeed_def
    by (metis sum.exhaust)
  from load_failure_notice [OF this] show ?thesis unfolding eq by blast
qed

lemma register_prompts_available:
  "available_prompts (register_prompts s ps b) = available_prompts b @ map prompt_entry ps"
  by (induction ps arbitrary: b) (auto simp: prompt_entry_def)

lemma connect_is_load:
  "connects (run_locally b) p \<Longrightarrow>
   connect_to_server b (n, p) = load_mcp_components p (Session n) b"
  by (auto simp: connect_to_server_def connects_def split: if_splits)

lemma load_prompts_failure:
  assumes "list_tools p = Inr ts" and "list_prompts p = Inl ex"
  shows "dict_get (sessions (load_mcp_components p s b)) k =
           (if k \<in> tool_name ` set ts then Some s else dict_get (sessions b) k)"
    and "available_tools (load_mcp_components p s b) = available_tools b @ map tool_entry ts"
    and "available_prompts (load_mcp_components p s b) = available_prompts b"
  using assms
  by (simp_all add: load_mcp_components_def Let_def say_frame register_tools_sessions
      register_tools_frame)

lemma load_resources_failure:
  assumes "list_tools p = Inr ts" and "list_prompts p = Inr pr" and "list_resources p = Inl ex"
  shows "dict_get (sessions (load_mcp_components p s b)) k =
           (if k \<in> tool_name ` set ts \<union> prompt_name ` set (the_list pr)
            then Some s else dict_get (sessions b) k)"
    and "available_tools (load_mcp_components p s b) = available_tools b @ map tool_entry ts"
    and "available_prompts (load_mcp_components p s b) =
           available_prompts b @ map prompt_entry (the_list pr)"
  using assms
  by (simp_all add: load_mcp_components_def Let_def say_frame register_tools_sessions
      register_tools_frame register_prompts_sessions register_prompts_frame
      register_prompts_available split: option.splits)

lemma foldl_tool_listed:
  assumes "connects (run_locally b) q" and "list_tools q = Inr tq" and "t \<in> set tq"
  shows "tool_entry t \<in> set (available_tools (foldl connect_to_server b (ps @ (m, q) # qs)))"
proof -
  have "tool_entry t \<in> set (tools_added (run_locally b) q)"
    using assms by (simp add: tools_added_def declared_tools_def)
  then show ?thesis by (simp only: foldl_available_tools) simp
qed

text \<open>
  Claim C5, as amended. A provider \<open>p\<close> for which some step fails (transport, session,
  handshake or one of the listings); \<open>b1\<close> is the chatbot before it is processed and
  \<open>b2\<close> the chatbot after. \<^verbatim>\<open>connect_to_servers\<close> returns normally, having
  processed the providers configured after \<open>p\<close> on \<open>b2\<close>, and \<open>p\<close> prints exactly
  one error notice.
  \<^item> When the failure is in connecting, in the handshake or in \<^verbatim>\<open>list_tools\<close>,
    \<open>p\<close> registers nothing, and the registry at the end is the one built from the
    configuration without \<open>p\<close>.
  \<^item> When \<^verbatim>\<open>list_prompts\<close> raises, exactly the tools of \<open>p\<close> are registered: their
    names route to its session, every other key routes as before, their dictionaries
    are appended to \<^verbatim>\<open>available_tools\<close>, and \<^verbatim>\<open>available_prompts\<close> is unchanged.
  \<^item> When \<^verbatim>\<open>list_resources\<close> raises, exactly the tools and the prompts of \<open>p\<close>
    are registered, in the routing dictionary and in both lists.
  \<^item> A provider configured after \<open>p\<close> that connects and declares a tool is registered
    at the end: the tool is listed and, unless a provider after it declares the name
    again, routes to its session.
\<close>

theorem failing_provider_is_skipped:
  fixes b :: chatbot and ps1 ps2 :: "(string \<times> provider) list" and n :: string and p :: provider
  defines "b1 \<equiv> foldl connect_to_server b ps1"
  defines "b2 \<equiv> connect_to_server (foldl connect_to_server b ps1) (n, p)"
  assumes "\<not> listings_succeed (run_locally b) p"
  shows "connect_to_servers b (Config (Some (ps1 @ (n, p) # ps2))) =
           Inr (foldl connect_to_server b2 ps2) \<and>
         (\<exists>ex. history b2 = history b1 @ [Printed (Error_connecting n ex)] \<or>
               history b2 = history b1 @ [Printed (Error_loading_component (Session n) ex)]) \<and>
         (\<not> connects (run_locally b) p \<or> (\<exists>ex. list_tools p = Inl ex) \<longrightarrow>
            sessions b2 = sessions b1 \<and> available_tools b2 = available_tools b1 \<and>
            available_prompts b2 = available_prompts b1 \<and>
            (\<exists>b' b''. connect_to_servers b (Config (Some (ps1 @ (n, p) # ps2))) = Inr b' \<and>
               connect_to_servers b (Config (Some (ps1 @ ps2))) = Inr b'' \<and>
               sessions b' = sessions b'' \<and> available_tools b' = available_tools b'' \<and>
               available_prompts b' = available_prompts b'')) \<and>
         (connects (run_locally b) p \<and> list_tools p = Inr ts \<and> (\<exists>ex. list_prompts p = Inl ex) \<longrightarrow>
            (\<forall>k. dict_get (sessions b2) k =
                   (if k \<in> tool_name ` set ts then Some (Session n) else dict_get (sessions b1) k)) \<and>
            available_tools b2 =
              available_tools b1 @
              map (\<lambda>t. Tool_dict (tool_name t) (tool_description t) (tool_inputSchema t)) ts \<and>
            available_prompts b2 = available_prompts b1) \<and>
         (connects (run_locally b) p \<and> list_tools p = Inr ts \<and> list_prompts p = Inr pr \<and>
          (\<exists>ex. list_resources p = Inl ex) \<longrightarrow>
            (\<forall>k. dict_get (sessions b2) k =
                   (if k \<in> tool_name ` set ts \<union> prompt_name ` set (the_list pr)
                    then Some (Session n) else dict_get (sessions b1) k)) \<and>
            available_tools b2 =
              available_tools b1 @
              map (\<lambda>t. Tool_dict (tool_name t) (tool_description t) (tool_inputSchema t)) ts \<and>
            available_prompts b2 =
              available_prompts b1 @
              map (\<lambda>q. Prompt_dict (prompt_name q) (prompt_description q) (prompt_arguments q))
                (the_list pr)) \<and>
         (\<forall>qs1 m q qs2 tq t.
            ps2 = qs1 @ (m, q) # qs2 \<and> connects (run_locally b) q \<and> list_tools q = Inr tq \<and>
            t \<in> set tq \<and> (\<forall>r\<in>set qs2. tool_name t \<notin> declared_keys (snd r)) \<longrightarrow>
              dict_get (sessions (foldl connect_to_server b2 ps2)) (tool_name t) = Some (Session m) \<and>
              Tool_dict (tool_name t) (tool_description t) (tool_inputSchema t)
                \<in> set (available_tools (foldl connect_to_server b2 ps2)))"
proof -
  have rl: "run_locally b1 = run_locally b" by (simp add: b1_def foldl_run_locally)
  have b2: "b2 = connect_to_server b1 (n, p)" by (simp add: b1_def b2_def)
  have te: "map tool_entry xs =
      map (\<lambda>t. Tool_dict (tool_name t) (tool_description t) (tool_inputSchema t)) xs" for xs
    by (simp add: tool_entry_def)
  have pe: "map prompt_entry xs =
      map (\<lambda>q. Prompt_dict (prompt_name q) (prompt_description q) (prompt_arguments q)) xs" for xs
    by (simp add: prompt_entry_def)
  have one: "connect_to_servers b (Config (Some (ps1 @ (n, p) # ps2))) =
           Inr (foldl connect_to_server b2 ps2)"
    by (simp add: b2_def)
  have two: "\<exists>ex. history b2 = history b1 @ [Printed (Error_connecting n ex)] \<or>
               history b2 = history b1 @ [Printed (Error_loading_component (Session n) ex)]"
    unfolding b2 using assms(3) by (intro connect_failure_notice) (simp add: rl)
  have three: "sessions b2 = sessions b1 \<and> available_tools b2 = available_tools b1 \<and>
            available_prompts b2 = available_prompts b1 \<and>
            (\<exists>b' b''. connect_to_servers b (Config (Some (ps1 @ (n, p) # ps2))) = Inr b' \<and>
               connect_to_servers b (Config (Some (ps1 @ ps2))) = Inr b'' \<and>
               sessions b' = sessions b'' \<and> available_tools b' = available_tools b'' \<and>
               available_prompts b' = available_prompts b'')"
    if early: "\<not> connects (run_locally b) p \<or> (\<exists>ex. list_tools p = Inl ex)"
  proof -
    have "\<not> connects (run_locally b1) p \<or> (\<exists>ex. list_tools p = Inl ex)"
      using early by (simp add: rl)
    from connect_early_failure [OF this, of n]
    have f: "forget b2 = forget b1"
      unfolding b2 by (auto simp: forget_say)
    then have "forget (foldl connect_to_server b2 ps2) = forget (foldl connect_to_server b1 ps2)"
      by (rule forget_foldl)
    from forget_fields [OF this] forget_fields [OF f] show ?thesis
      by (simp add: b1_def b2_def)
  qed
  have four: "(\<forall>k. dict_get (sessions b2) k =
                   (if k \<in> tool_name ` set ts then Some (Session n) else dict_get (sessions b1) k)) \<and>
            available_tools b2 =
              available_tools b1 @
              map (\<lambda>t. Tool_dict (tool_name t) (tool_description t) (tool_inputSchema t)) ts \<and>
            available_prompts b2 = available_prompts b1"
    if "connects (run_locally b) p" "list_tools p = Inr ts" "\<exists>ex. list_prompts p = Inl ex"
  proof -
    from that(3) obtain ex where ex: "list_prompts p = Inl ex" by blast
    have "b2 = load_mcp_components p (Session n) b1"
      unfolding b2 using that(1) by (intro connect_is_load) (simp add: rl)
    then show ?thesis
      using load_prompts_failure [OF that(2) ex, of "Session n" b1] by (simp add: te)
  qed
  have five: "(\<forall>k. dict_get (sessions b2) k =
                   (if k \<in> tool_name ` set ts \<union> prompt_name ` set (the_list pr)
                    then Some (Session n) else dict_get (sessions b1) k)) \<and>
            available_tools b2 =
              available_tools b1 @
              map (\<lambda>t. Tool_dict (tool_name t) (tool_description t) (tool_inputSchema t)) ts \<and>
            available_prompts b2 =
              available_prompts b1 @
              map (\<lambda>q. Prompt_dict (prompt_name q) (prompt_description q) (prompt_arguments q))
                (the_list pr)"
    if "connects (run_locally b) p" "list_tools p = Inr ts" "list_prompts p = Inr pr"
       "\<exists>ex. list_resources p = Inl ex"
  proof -
    from that(4) obtain ex where ex: "list_resources p = Inl ex" by blast
    have "b2 = load_mcp_components p (Session n) b1"
      unfolding b2 using that(1) by (intro connect_is_load) (simp add: rl)
    then show ?thesis
      using load_resources_failure [OF that(2,3) ex, of "Session n" b1] by (simp add: te pe)
  qed
  have six: "dict_get (sessions (foldl connect_to_server b2 ps2)) (tool_name t) = Some (Session m) \<and>
              Tool_dict (tool_name t) (tool_description t) (tool_inputSchema t)
                \<in> set (available_tools (foldl connect_to_server b2 ps2))"
    if "ps2 = qs1 @ (m, q) # qs2" "connects (run_locally b) q" "list_tools q = Inr tq"
       "t \<in> set tq" "\<forall>r\<in>set qs2. tool_name t \<notin> declared_keys (snd r)"
    for qs1 m q qs2 tq t
  proof -
    have eq: "foldl connect_to_server b2 ps2 =
        foldl connect_to_server b ((ps1 @ (n, p) # qs1) @ (m, q) # qs2)"
      by (simp add: b2_def that(1))
    have "tool_name t \<in> tool_name ` set tq" using that(4) by simp
    then have "dict_get (sessions (foldl connect_to_server b ((ps1 @ (n, p) # qs1) @ (m, q) # qs2)))
        (tool_name t) = Some (Session m)"
      using that(2,3,5) by (intro foldl_tool_key) simp_all
    moreover have "tool_entry t \<in>
        set (available_tools (foldl connect_to_server b ((ps1 @ (n, p) # qs1) @ (m, q) # qs2)))"
      using that(2,3,4) by (rule foldl_tool_listed)
    ultimately show ?thesis unfolding eq by (simp add: tool_entry_def)
  qed
  show ?thesis using one two three four five six by blast
qed


theorem failing_provider_is_skipped_witness:
  "\<not> listings_succeed True unreachable \<and> \<not> connects True unreachable \<and>
   connect_to_servers (init_chatbot True)
     (Config (Some [(''down'', unreachable), (''research'', research)])) =
   Inr (connect_to_server
          (say (Error_connecting ''down'' (Exception ''command not found'')) (init_chatbot True))
          (''research'', research)) \<and>
   (\<exists>b' b''. connect_to_servers (init_chatbot True)
               (Config (Some [(''down'', unreachable), (''research'', research)])) = Inr b' \<and>
      connect_to_servers (init_chatbot True) (Config (Some [(''research'', research)])) = Inr b'' \<and>
      sessions b' = sessions b'' \<and> available_tools b' = available_tools b'' \<and>
      available_prompts b' = available_prompts b'') \<and>
   dict_get (sessions (foldl connect_to_server
       (connect_to_server (init_chatbot True) (''down'', unreachable))
       [(''research'', research)])) ''extract_info'' = Some (Session ''research'') \<and>
   \<not> listings_succeed True flaky \<and> connects True flaky \<and>
   dict_get (sessions (connect_to_server (init_chatbot True) (''research'', flaky)))
     ''extract_info'' = Some (Session ''research'') \<and>
   dict_get (sessions (connect_to_server (init_chatbot True) (''research'', flaky)))
     ''generate_search_prompt'' = None \<and>
   available_tools (connect_to_server (init_chatbot True) (''research'', flaky)) =
     [Tool_dict ''search_papers'' ''Search for papers on arXiv'' ''topic, max_results'',
      Tool_dict ''extract_info'' ''Information about a paper'' ''paper_id''] \<and>
   available_prompts (connect_to_server (init_chatbot True) (''research'', flaky)) = [] \<and>
   \<not> listings_succeed True flaky_resources \<and> connects True flaky_resources \<and>
   dict_get (sessions (connect_to_server (init_chatbot True) (''research'', flaky_resources)))
     ''generate_search_prompt'' = Some (Session ''research'') \<and>
   dict_get (sessions (connect_to_server (init_chatbot True) (''research'', flaky_resources)))
     ''papers://folders'' = None \<and>
   available_tools (connect_to_server (init_chatbot True) (''research'', flaky_resources)) =
     [Tool_dict ''search_papers'' ''Search for papers on arXiv'' ''topic, max_results'',
      Tool_dict ''extract_info'' ''Information about a paper'' ''paper_id''] \<and>
   available_prompts (connect_to_server (init_chatbot True) (''research'', flaky_resources)) =
     [Prompt_dict ''generate_search_prompt'' ''Find and discuss papers'' [''topic'', ''num_papers'']]"
proof -
  let ?tools = "[Tool ''search_papers'' ''Search for papers on arXiv'' ''topic, max_results'',
                 Tool ''extract_info'' ''Information about a paper'' ''paper_id'']"
  let ?prompts = "Some [Prompt ''generate_search_prompt'' ''Find and discuss papers''
                          [''topic'', ''num_papers'']]"
  have nc: "\<not> connects True unreachable"
    by (simp add: connects_def unreachable_def)
  then have nl: "\<not> listings_succeed (run_locally (init_chatbot True)) unreachable"
    by (simp add: listings_succeed_def init_fields)
  have step: "connect_to_server (init_chatbot True) (''down'', unreachable) =
      say (Error_connecting ''down'' (Exception ''command not found'')) (init_chatbot True)"
    by (simp add: connect_to_server_def unreachable_def init_fields)
  have rc: "connects True research" and rt: "list_tools research = Inr ?tools"
    by (simp_all add: connects_def research_def)
  have fl: "\<not> listings_succeed (run_locally (init_chatbot True)) flaky"
    and fc: "connects True flaky" and ft: "list_tools flaky = Inr ?tools"
    and fp: "list_prompts flaky = Inl (Exception ''list_prompts timed out'')"
    by (simp_all add: listings_succeed_def connects_def flaky_def research_def)
  have rl: "\<not> listings_succeed (run_locally (init_chatbot True)) flaky_resources"
    and rcn: "connects True flaky_resources" and rts: "list_tools flaky_resources = Inr ?tools"
    and rp: "list_prompts flaky_resources = Inr ?prompts"
    and rr: "list_resources flaky_resources = Inl (Exception ''list_resources timed out'')"
    by (simp_all add: listings_succeed_def connects_def flaky_resources_def research_def)
  note early = failing_provider_is_skipped [OF nl, where ?ps1.0 = "[]" and n = "''down''"
      and ?ps2.0 = "[(''research'', research)]"]
  note prompts = failing_provider_is_skipped [OF fl, where ?ps1.0 = "[]" and n = "''research''"
      and ?ps2.0 = "[]" and ts = ?tools]
  note resources = failing_provider_is_skipped [OF rl, where ?ps1.0 = "[]" and n = "''research''"
      and ?ps2.0 = "[]" and ts = ?tools and pr = ?prompts]
  have later: "dict_get (sessions (foldl connect_to_server
       (connect_to_server (init_chatbot True) (''down'', unreachable))
       [(''research'', research)])) ''extract_info'' = Some (Session ''research'')"
  proof -
    have "[(''research'', research)] = [] @ (''research'', research) # [] \<and>
        connects (run_locally (init_chatbot True)) research \<and> list_tools research = Inr ?tools \<and>
        Tool ''extract_info'' ''Information about a paper'' ''paper_id'' \<in> set ?tools \<and>
        (\<forall>r\<in>set ([]::(string \<times> provider) list).
           tool_name (Tool ''extract_info'' ''Information about a paper'' ''paper_id'')
             \<notin> declared_keys (snd r))"
      using rc rt by (simp add: init_fields)
    from early [THEN conjunct2, THEN conjunct2, THEN conjunct2, THEN conjunct2, THEN conjunct2,
        rule_format, OF this]
    show ?thesis by simp
  qed
  show ?thesis
    using early prompts resources later nc step fl fc ft fp rl rcn rts rp rr
    by (simp add: init_fields listings_succeed_def dict_get_def)
qed

text \<open>
  The claim C5 as stated fails: a provider whose \<^verbatim>\<open>list_prompts\<close> raises has
  failed while listing its capabilities, and it contributes its two tools.
\<close>

theorem listing_failure_keeps_tools:
  "list_prompts flaky = Inl (Exception ''list_prompts timed out'') \<and>
   connect_to_servers (init_chatbot True) (Config (Some [(''research'', flaky)])) =
     Inr \<lparr>run_locally = True,
          sessions = [(''search_papers'', Session ''research''),
                      (''extract_info'', Session ''research'')],
          available_tools =
            [Tool_dict ''search_papers'' ''Search for papers on arXiv'' ''topic, max_results'',
             Tool_dict ''extract_info'' ''Information about a paper'' ''paper_id''],
          available_prompts = [],
          history = [Printed (Error_loading_component (Session ''research'')
                               (Exception ''list_prompts timed out''))]\<rparr>"
  by (simp add: connect_to_server_def load_mcp_components_def flaky_def research_def
      init_chatbot_def say_def Let_def)

text \<open>
  Claim C7, as amended. There is one routing dictionary for the three kinds. When the
  three listings of a provider succeed, every key it declares, as a tool name, a prompt
  name or a resource URI, resolves to its session afterwards, whatever session and kind
  the key had before; every other key resolves as before.
\<close>

theorem shared_routing_dictionary:
  assumes "list_tools p = Inr ts" and "list_prompts p = Inr pr" and "list_resources p = Inr rr"
  shows "dict_get (sessions (load_mcp_components p s b)) k =
           (if k \<in> tool_name ` set ts \<union> prompt_name ` set (the_list pr) \<union> set (the_list rr)
            then Some s else dict_get (sessions b) k)"
  using assms
  by (cases pr; cases rr)
     (auto simp: load_mcp_components_def Let_def register_tools_sessions
        register_prompts_sessions register_resources_sessions)

theorem shared_routing_dictionary_witness:
  "dict_get (sessions (load_mcp_components prompt_only (Session ''helper'')
       (connect_to_server (init_chatbot True) (''research'', research)))) ''search_papers'' =
     Some (Session ''helper'') \<and>
   dict_get (sessions (load_mcp_components prompt_only (Session ''helper'')
       (connect_to_server (init_chatbot True) (''research'', research)))) ''extract_info'' =
     dict_get (sessions (connect_to_server (init_chatbot True) (''research'', research)))
       ''extract_info''"
proof -
  have l: "list_tools prompt_only = Inr []"
    "list_prompts prompt_only = Inr (Some [Prompt ''search_papers'' ''A prompt'' [''topic'']])"
    "list_resources prompt_only = Inr None"
    by (simp_all add: prompt_only_def)
  show ?thesis
    using shared_routing_dictionary [OF l, of "Session ''helper''"
          "connect_to_server (init_chatbot True) (''research'', research)" "''search_papers''"]
      shared_routing_dictionary [OF l, of "Session ''helper''"
          "connect_to_server (init_chatbot True) (''research'', research)" "''extract_info''"]
    by simp
qed

text \<open>
  The claim C7 as stated fails: the tool \<^verbatim>\<open>search_papers\<close> of the first provider
  resolves to its session, and after a second provider registers a prompt of that name
  the same lookup resolves to the second session.
\<close>

theorem prompt_shadows_tool:
  "list_tools prompt_only = Inr [] \<and>
   list_prompts prompt_only = Inr (Some [Prompt ''search_papers'' ''A prompt'' [''topic'']]) \<and>
   dict_get (sessions (connect_to_server (init_chatbot True) (''research'', research)))
     ''search_papers'' = Some (Session ''research'') \<and>
   dict_get (sessions (connect_to_server
       (connect_to_server (init_chatbot True) (''research'', research))
       (''helper'', prompt_only))) ''search_papers'' = Some (Session ''helper'')"
  by (simp add: connect_to_server_def load_mcp_components_def prompt_only_def research_def
      init_chatbot_def dict_get_def Let_def)

subsection \<open>Resource routing\<close>

lemma papers_fallback_first:
  "\<forall>e\<in>set xs. \<not> prefix ''papers://'' (fst e) \<Longrightarrow> prefix ''papers://'' k \<Longrightarrow>
   papers_fallback (xs @ (k, s) # ys) = Some s"
  by (induction xs) auto

lemma papers_fallback_none:
  "\<forall>e\<in>set xs. \<not> prefix ''papers://'' (fst e) \<Longrightarrow> papers_fallback xs = None"
  by (induction xs) auto

lemma get_resource_resolved:
  "resolve_resource b uri = Some s \<Longrightarrow> routes_to env b uri s"
proof -
  assume r: "resolve_resource b uri = Some s"
  show ?thesis
  proof (cases "read_resource env (history b) s uri")
    case (Inl ex)
    then have "history (get_resource env b uri) =
        history b @ Read_resource s uri # map Printed [Error_getting_resource uri ex]"
      using r by (simp add: get_resource_def say_def)
    then show ?thesis unfolding routes_to_def by blast
  next
    case (Inr res)
    show ?thesis
    proof (cases res)
      case None
      then have "history (get_resource env b uri) =
          history b @ Read_resource s uri # map Printed [No_content]"
        using r Inr by (simp add: get_resource_def say_def)
      then show ?thesis unfolding routes_to_def by blast
    next
      case (Some contents)
      show ?thesis
      proof (cases contents)
        case Nil
        then have "history (get_resource env b uri) =
            history b @ Read_resource s uri # map Printed [No_content]"
          using r Inr Some by (simp add: get_resource_def say_def)
        then show ?thesis unfolding routes_to_def by blast
      next
        case (Cons first others)
        show ?thesis
        proof (cases first)
          case (Text_contents body)
          then have "history (get_resource env b uri) =
              history b @ Read_resource s uri #
              map Printed [Resource_header uri, Content_header, Content_text body]"
            using r Inr Some Cons by (simp add: get_resource_def say_def)
          then show ?thesis unfolding routes_to_def by blast
        next
          case Blob_contents
          then have "history (get_resource env b uri) =
              history b @ Read_resource s uri #
              map Printed [Resource_header uri, Content_header,
                           Error_getting_resource uri (Exception ''AttributeError'')]"
            using r Inr Some Cons by (simp add: get_resource_def say_def)
          then show ?thesis unfolding routes_to_def by blast
        qed
      qed
    qed
  qed
qed

text \<open>
  Claim C4 (resource routing). A URI that is a key of \<^verbatim>\<open>self.sessions\<close> is read
  from the session stored under it. A URI that is not a key and starts with
  \<^verbatim>\<open>papers://\<close> is read from the session of the first key, in the iteration order of
  the dictionary, that starts with \<^verbatim>\<open>papers://\<close>; when no key does, the request
  ends with the not-found notice. A URI that is not a key and does not start with
  \<^verbatim>\<open>papers://\<close> ends with the not-found notice and no session is contacted.
\<close>

theorem resource_routing:
  "(dict_get (sessions b) uri = Some s \<longrightarrow> routes_to env b uri s) \<and>
   (dict_get (sessions b) uri = None \<and> prefix ''papers://'' uri \<and>
    sessions b = earlier @ (k, s) # later \<and>
    (\<forall>e\<in>set earlier. \<not> prefix ''papers://'' (fst e)) \<and> prefix ''papers://'' k
      \<longrightarrow> routes_to env b uri s) \<and>
   (dict_get (sessions b) uri = None \<and> prefix ''papers://'' uri \<and>
    (\<forall>e\<in>set (sessions b). \<not> prefix ''papers://'' (fst e))
      \<longrightarrow> history (get_resource env b uri) = history b @ [Printed (Resource_not_found uri)]) \<and>
   (dict_get (sessions b) uri = None \<and> \<not> prefix ''papers://'' uri
      \<longrightarrow> history (get_resource env b uri) = history b @ [Printed (Resource_not_found uri)])"
proof -
  have exact: "routes_to env b uri s" if "dict_get (sessions b) uri = Some s"
    using that by (intro get_resource_resolved) (simp add: resolve_resource_def)
  have fallback: "routes_to env b uri s"
    if "dict_get (sessions b) uri = None" "prefix ''papers://'' uri"
       "sessions b = earlier @ (k, s) # later"
       "\<forall>e\<in>set earlier. \<not> prefix ''papers://'' (fst e)" "prefix ''papers://'' k"
  proof -
    have "papers_fallback (sessions b) = Some s"
      unfolding that(3) using that(4,5) by (rule papers_fallback_first)
    then show ?thesis
      using that(1,2) by (intro get_resource_resolved) (simp add: resolve_resource_def)
  qed
  have nokey: "history (get_resource env b uri) = history b @ [Printed (Resource_not_found uri)]"
    if "dict_get (sessions b) uri = None" "prefix ''papers://'' uri"
       "\<forall>e\<in>set (sessions b). \<not> prefix ''papers://'' (fst e)"
    using that papers_fallback_none [of "sessions b"]
    by (simp add: get_resource_def resolve_resource_def say_def)
  have other: "history (get_resource env b uri) = history b @ [Printed (Resource_not_found uri)]"
    if "dict_get (sessions b) uri = None" "\<not> prefix ''papers://'' uri"
    using that by (simp add: get_resource_def resolve_resource_def say_def)
  show ?thesis using exact fallback nokey other by blast
qed

lemma research_bot_sessions:
  "sessions research_bot =
     [(''search_papers'', Session ''research''), (''extract_info'', Session ''research''),
      (''generate_search_prompt'', Session ''research''),
      (''papers://folders'', Session ''research'')]"
  "history research_bot = []"
  "available_tools research_bot =
     [Tool_dict ''search_papers'' ''Search for papers on arXiv'' ''topic, max_results'',
      Tool_dict ''extract_info'' ''Information about a paper'' ''paper_id'']"
  by (simp_all add: research_bot_def connect_to_server_def load_mcp_components_def
      research_def init_chatbot_def Let_def)

theorem resource_routing_witness:
  "routes_to quiet_env research_bot ''papers://folders'' (Session ''research'') \<and>
   routes_to quiet_env research_bot ''papers://graphs'' (Session ''research'') \<and>
   history (get_resource quiet_env (init_chatbot True) ''papers://graphs'') =
     [Printed (Resource_not_found ''papers://graphs'')] \<and>
   history (get_resource quiet_env research_bot ''notes://today'') =
     [Printed (Resource_not_found ''notes://today'')]"
proof -
  have a: "dict_get (sessions research_bot) ''papers://folders'' = Some (Session ''research'')"
    by (simp add: research_bot_sessions dict_get_def)
  have b: "dict_get (sessions research_bot) ''papers://graphs'' = None \<and>
      prefix ''papers://'' ''papers://graphs'' \<and>
      sessions research_bot =
        [(''search_papers'', Session ''research''), (''extract_info'', Session ''research''),
         (''generate_search_prompt'', Session ''research'')] @
        (''papers://folders'', Session ''research'') # [] \<and>
      (\<forall>e\<in>set [(''search_papers'', Session ''research''), (''extract_info'', Session ''research''),
         (''generate_search_prompt'', Session ''research'')]. \<not> prefix ''papers://'' (fst e)) \<and>
      prefix ''papers://'' ''papers://folders''"
    by (simp add: research_bot_sessions dict_get_def)
  have c: "dict_get (sessions (init_chatbot True)) ''papers://graphs'' = None \<and>
      prefix ''papers://'' ''papers://graphs'' \<and>
      (\<forall>e\<in>set (sessions (init_chatbot True)). \<not> prefix ''papers://'' (fst e))"
    by (simp add: init_chatbot_def dict_get_def)
  have d: "dict_get (sessions research_bot) ''notes://today'' = None \<and>
      \<not> prefix ''papers://'' ''notes://today''"
    by (simp add: research_bot_sessions dict_get_def)
  show ?thesis
    using a b c d
      resource_routing [of research_bot "''papers://folders''" "Session ''research''" quiet_env]
      resource_routing [of research_bot "''papers://graphs''" "Session ''research''" quiet_env
        "[(''search_papers'', Session ''research''), (''extract_info'', Session ''research''),
          (''generate_search_prompt'', Session ''research'')]" "''papers://folders''" "[]"]
      resource_routing [of "init_chatbot True" "''papers://graphs''" _ quiet_env]
      resource_routing [of research_bot "''notes://today''" _ quiet_env]
    by (simp add: research_bot_sessions init_chatbot_def)
qed

subsection \<open>The conversation loop\<close>

lemma heap_append_extend: "heap_append a x h = heap_extend a [x] h"
  by (simp add: heap_append_def heap_extend_def)

lemma heap_extend_extend: "heap_extend a ys (heap_extend a xs h) = heap_extend a (xs @ ys) h"
  by (simp add: heap_extend_def)

lemma heap_extend_Nil: "heap_extend a [] h = h"
  by (simp add: heap_extend_def)

lemma heap_extend_new: "heap_extend (length h) xs (h @ [ys]) = h @ [ys @ xs]"
  by (simp add: heap_extend_def)

lemma content_loop_append:
  "content_loop env b a (xs @ ys) c =
     (case content_loop env b a xs c of
        Normal c' \<Rightarrow> content_loop env b a ys c'
      | Break c' \<Rightarrow> Break c'
      | Raise ex c' \<Rightarrow> Raise ex c')"
  by (induction env b a xs c rule: content_loop.induct)
     (simp_all add: Let_def split: option.splits sum.splits)

lemma content_loop_texts:
  "\<forall>x\<in>set xs. \<not> is_tool_use x \<Longrightarrow>
   content_loop env b a xs c =
     Normal (c\<lparr>heap := heap_extend a (texts xs) (heap c),
               events := events c @ text_events xs\<rparr>)"
proof (induction env b a xs c rule: content_loop.induct)
  case (1 env b a c)
  then show ?case by (simp add: heap_extend_Nil)
next
  case (2 env b a t rest c)
  then show ?case by (simp add: heap_append_extend heap_extend_extend)
next
  case (3 env b a ty rest c)
  then show ?case by simp
next
  case (4 env b a i n inp rest c)
  then show ?case by simp
qed

lemma content_loop_events:
  "prefix (events c) (events (flow_state (content_loop env b a xs c)))"
proof (induction env b a xs c rule: content_loop.induct)
  case (4 env b a i n inp rest c)
  show ?case
  proof (cases "dict_get (sessions b) n")
    case None
    then show ?thesis by (simp add: Let_def)
  next
    case (Some s)
    show ?thesis
    proof (cases "call_tool env (events c) s n inp")
      case (Inl ex)
      then show ?thesis using Some by (simp add: Let_def)
    next
      case (Inr r)
      then show ?thesis
        using Some "4.IH" [OF refl Some, of r]
        by (simp add: Let_def) (meson append_prefixD)
    qed
  qed
next
  case (2 env b a t rest c)
  then show ?case by simp (meson append_prefixD)
qed simp_all

lemma content_loop_has_tool_use:
  "content_loop env b a xs c = Normal c' \<Longrightarrow>
     has_tool_use c' = (has_tool_use c \<or> (\<exists>x\<in>set xs. is_tool_use x))"
  "content_loop env b a xs c = Break c' \<Longrightarrow> has_tool_use c'"
  by (induction env b a xs c rule: content_loop.induct)
     (auto simp: Let_def split: option.splits sum.splits)

lemma loop_events:
  "prefix (events c) (events_of (process_query_loop env b fuel c))"
proof (induction fuel arbitrary: c)
  case 0
  then show ?case by simp
next
  case (Suc fuel)
  show ?case
  proof (cases "messages_create env (events c) (available_tools b) (sent c)")
    case (Inl ex)
    then show ?thesis by simp
  next
    case (Inr resp)
    let ?r = "content_loop env b (length (heap c)) resp (start_round b c)"
    have p: "prefix (events c) (events (flow_state ?r))"
      using content_loop_events [of "start_round b c" env b "length (heap c)" resp]
      by (simp add: start_round_def) (meson append_prefixD)
    show ?thesis
    proof (cases ?r)
      case (Normal c')
      then show ?thesis
        using Inr p Suc.IH [of c'] by (auto intro: prefix_order.trans)
    next
      case (Break c')
      then show ?thesis
        using Inr p Suc.IH [of c'] by (auto intro: prefix_order.trans)
    next
      case (Raise ex c')
      then show ?thesis using Inr p by simp
    qed
  qed
qed

lemma loop_first_request:
  "prefix (events c @ [request b c]) (events_of (process_query_loop env b (Suc fuel) c))"
proof (cases "messages_create env (events c) (available_tools b) (sent c)")
  case (Inl ex)
  then show ?thesis by simp
next
  case (Inr resp)
  let ?r = "content_loop env b (length (heap c)) resp (start_round b c)"
  have p: "prefix (events c @ [request b c]) (events (flow_state ?r))"
    using content_loop_events [of "start_round b c" env b "length (heap c)" resp]
    by (simp add: start_round_def)
  show ?thesis
  proof (cases ?r)
    case (Normal c')
    then show ?thesis
      using Inr p loop_events [of c' env b fuel] by (auto intro: prefix_order.trans)
  next
    case (Break c')
    then show ?thesis
      using Inr p loop_events [of c' env b fuel] by (auto intro: prefix_order.trans)
  next
    case (Raise ex c')
    then show ?thesis using Inr p by simp
  qed
qed

lemmas run_simps =
  process_query_def start_round_def request_def sent_def heap_append_def heap_at_def
  dict_get_def research_bot_sessions quiet_env_def Let_def

text \<open>
  Claim C1, as amended. A round whose response holds a tool request for a name that
  resolves, the blocks before it having been processed normally: when
  \<^verbatim>\<open>call_tool\<close> raises, \<^verbatim>\<open>process_query\<close> ends by raising that exception. The
  assistant turn with the request has been appended to the conversation; no result for
  the request is appended, no later block of the response is processed, and the call is
  the last event: no further backend request is issued.
\<close>

theorem tool_error_propagates:
  assumes "messages_create env (events c) (available_tools b) (sent c) =
             Inr (pre @ Tool_use i n inp # rest)"
    and "content_loop env b (length (heap c)) pre (start_round b c) = Normal c1"
    and "dict_get (sessions b) n = Some s"
    and "call_tool env (events c1) s n inp = Inl ex"
  shows "process_query_loop env b (Suc fuel) c =
           Raised ex
             (c1\<lparr>has_tool_use := True,
                 heap := heap_append (length (heap c)) (Tool_use i n inp) (heap c1),
                 messages := messages c1 @ [Assistant (length (heap c))],
                 events := events c1 @ [Call_tool s n inp]\<rparr>)"
  using assms by (simp add: content_loop_append Let_def)

theorem tool_error_propagates_witness:
  "process_query_loop broken_tool_env research_bot (Suc 0)
     \<lparr>messages = [User_text ''q''], heap = [], has_tool_use = False, events = []\<rparr> =
   Raised (Exception ''connection lost'')
     \<lparr>messages = [User_text ''q'', Assistant 0],
      heap = [[Tool_use ''toolu_01'' ''search_papers'' ''topic=graphs'']],
      has_tool_use = True,
      events = [Backend_request (available_tools research_bot) [User_says ''q''],
                Call_tool (Session ''research'') ''search_papers'' ''topic=graphs'']\<rparr>"
proof -
  let ?c = "\<lparr>messages = [User_text ''q''], heap = [], has_tool_use = False, events = []\<rparr>"
  have 1: "messages_create broken_tool_env (events ?c) (available_tools research_bot) (sent ?c) =
      Inr ([] @ Tool_use ''toolu_01'' ''search_papers'' ''topic=graphs'' # [])"
    by (simp add: broken_tool_env_def quiet_env_def)
  have 2: "content_loop broken_tool_env research_bot (length (heap ?c)) []
      (start_round research_bot ?c) = Normal (start_round research_bot ?c)"
    by simp
  have 3: "dict_get (sessions research_bot) ''search_papers'' = Some (Session ''research'')"
    by (simp add: research_bot_sessions dict_get_def)
  have 4: "call_tool broken_tool_env (events (start_round research_bot ?c)) (Session ''research'')
      ''search_papers'' ''topic=graphs'' = Inl (Exception ''connection lost'')"
    by (simp add: broken_tool_env_def quiet_env_def)
  show ?thesis
    using tool_error_propagates [OF 1 2 3 4, of 0]
    by (simp add: start_round_def request_def sent_def heap_append_def)
qed

text \<open>
  The claim C1 as stated fails: the call raises, and \<^verbatim>\<open>process_query\<close> ends by
  raising; the conversation holds no result for the request and the loop has not gone
  on to a second round.
\<close>

theorem tool_error_ends_query:
  "dict_get (sessions research_bot) ''search_papers'' = Some (Session ''research'') \<and>
   call_tool broken_tool_env
     [Backend_request (available_tools research_bot) [User_says ''find papers on graphs'']]
     (Session ''research'') ''search_papers'' ''topic=graphs'' =
     Inl (Exception ''connection lost'') \<and>
   process_query broken_tool_env research_bot (Suc (Suc (Suc 0))) ''find papers on graphs'' =
   Raised (Exception ''connection lost'')
     \<lparr>messages = [User_text ''find papers on graphs'', Assistant 0],
      heap = [[Tool_use ''toolu_01'' ''search_papers'' ''topic=graphs'']],
      has_tool_use = True,
      events =
        [Backend_request
           [Tool_dict ''search_papers'' ''Search for papers on arXiv'' ''topic, max_results'',
            Tool_dict ''extract_info'' ''Information about a paper'' ''paper_id'']
           [User_says ''find papers on graphs''],
         Call_tool (Session ''research'') ''search_papers'' ''topic=graphs'']\<rparr>"
  by (simp add: run_simps broken_tool_env_def)

text \<open>
  Claim C2, as amended. The first two tool requests of a response are \<open>A\<close>, whose name
  resolves and whose call returns, and \<open>B\<close>, whose name does not resolve; text may
  stand around them and anything may follow (the \<open>C\<close> of the claim). The round calls
  \<open>A\<close>, appends its result, prints the not-found notice for \<open>B\<close> and processes
  nothing after \<open>B\<close>. Then the outer loop goes on with the state \<open>c'\<close> so reached:
  when a further round is allowed, the next event is a backend request carrying
  that state.
\<close>

theorem unknown_tool_round:
  fixes c :: conv and b :: chatbot and sA :: session and t0 t1 :: "content list"
    and iA nA inA rA iB nB inB :: string
  defines "c' \<equiv>
     \<lparr>messages = messages c @ [Assistant (length (heap c)), Tool_result iA rA,
                               Assistant (length (heap c))],
      heap = heap c @ [texts t0 @ Tool_use iA nA inA # texts t1 @ [Tool_use iB nB inB]],
      has_tool_use = True,
      events = events c @ request b c # text_events t0 @ Call_tool sA nA inA #
               text_events t1 @ [Printed (Tool_not_found nB)]\<rparr>"
  assumes "messages_create env (events c) (available_tools b) (sent c) =
             Inr (t0 @ Tool_use iA nA inA # t1 @ Tool_use iB nB inB # rest)"
    and "\<forall>x\<in>set t0. \<not> is_tool_use x" and "\<forall>x\<in>set t1. \<not> is_tool_use x"
    and "dict_get (sessions b) nA = Some sA" and "dict_get (sessions b) nB = None"
    and "call_tool env (events c @ request b c # text_events t0) sA nA inA = Inr rA"
  shows "process_query_loop env b (Suc fuel) c = process_query_loop env b fuel c' \<and>
         prefix (events c' @ [request b c'])
           (events_of (process_query_loop env b (Suc (Suc fuel)) c))"
proof -
  let ?a = "length (heap c)"
  have "content_loop env b ?a (t0 @ Tool_use iA nA inA # t1 @ Tool_use iB nB inB # rest)
          (start_round b c) = Break c'"
    using assms(3-7)
    by (simp add: content_loop_append content_loop_texts Let_def start_round_def c'_def
        heap_append_extend heap_extend_extend heap_extend_new)
  then have step: "\<And>k. process_query_loop env b (Suc k) c = process_query_loop env b k c'"
    using assms(2) by (simp add: c'_def)
  show ?thesis
    using step [of fuel] step [of "Suc fuel"] loop_first_request [of c' b env fuel] by simp
qed

theorem unknown_tool_round_witness:
  "prefix
     [Backend_request (available_tools research_bot) [User_says ''q''],
      Call_tool (Session ''research'') ''search_papers'' ''topic=graphs'',
      Printed (Tool_not_found ''translate''),
      Backend_request (available_tools research_bot)
        [User_says ''q'',
         Assistant_says [Tool_use ''toolu_01'' ''search_papers'' ''topic=graphs'',
                         Tool_use ''toolu_02'' ''translate'' ''lang=fr''],
         User_tool_result ''toolu_01'' ''[]'',
         Assistant_says [Tool_use ''toolu_01'' ''search_papers'' ''topic=graphs'',
                         Tool_use ''toolu_02'' ''translate'' ''lang=fr'']]]
     (events_of (process_query_loop unknown_tool_env research_bot (Suc (Suc 0))
        \<lparr>messages = [User_text ''q''], heap = [], has_tool_use = False, events = []\<rparr>))"
proof -
  let ?c = "\<lparr>messages = [User_text ''q''], heap = [], has_tool_use = False, events = []\<rparr>"
  have 1: "messages_create unknown_tool_env (events ?c) (available_tools research_bot) (sent ?c) =
      Inr ([] @ Tool_use ''toolu_01'' ''search_papers'' ''topic=graphs'' # [] @
           Tool_use ''toolu_02'' ''translate'' ''lang=fr'' #
           [Tool_use ''toolu_03'' ''extract_info'' ''paper_id=1''])"
    by (simp add: unknown_tool_env_def quiet_env_def sent_def)
  have 2: "\<forall>x\<in>set ([]::content list). \<not> is_tool_use x" by simp
  have 3: "dict_get (sessions research_bot) ''search_papers'' = Some (Session ''research'')"
    "dict_get (sessions research_bot) ''translate'' = None"
    by (simp_all add: research_bot_sessions dict_get_def)
  have 4: "call_tool unknown_tool_env (events ?c @ request research_bot ?c # text_events [])
      (Session ''research'') ''search_papers'' ''topic=graphs'' = Inr ''[]''"
    by (simp add: unknown_tool_env_def quiet_env_def)
  show ?thesis
    using unknown_tool_round [OF 1 2 2 3 4, of 0]
    by (simp add: request_def sent_def heap_at_def)
qed

text \<open>
  The claim C2 as stated fails: after the not-found notice a second backend request is
  issued for the same query.
\<close>

theorem unknown_tool_second_request:
  "messages_create unknown_tool_env [] (available_tools research_bot) [User_says ''find papers''] =
     Inr [Tool_use ''toolu_01'' ''search_papers'' ''topic=graphs'',
          Tool_use ''toolu_02'' ''translate'' ''lang=fr'',
          Tool_use ''toolu_03'' ''extract_info'' ''paper_id=1''] \<and>
   dict_get (sessions research_bot) ''search_papers'' = Some (Session ''research'') \<and>
   dict_get (sessions research_bot) ''translate'' = None \<and>
   dict_get (sessions research_bot) ''extract_info'' = Some (Session ''research'') \<and>
   events_of (process_query unknown_tool_env research_bot (Suc (Suc (Suc 0))) ''find papers'') =
     [Backend_request
        [Tool_dict ''search_papers'' ''Search for papers on arXiv'' ''topic, max_results'',
         Tool_dict ''extract_info'' ''Information about a paper'' ''paper_id'']
        [User_says ''find papers''],
      Call_tool (Session ''research'') ''search_papers'' ''topic=graphs'',
      Printed (Tool_not_found ''translate''),
      Backend_request
        [Tool_dict ''search_papers'' ''Search for papers on arXiv'' ''topic, max_results'',
         Tool_dict ''extract_info'' ''Information about a paper'' ''paper_id'']
        [User_says ''find papers'',
         Assistant_says [Tool_use ''toolu_01'' ''search_papers'' ''topic=graphs'',
                         Tool_use ''toolu_02'' ''translate'' ''lang=fr''],
         User_tool_result ''toolu_01'' ''[]'',
         Assistant_says [Tool_use ''toolu_01'' ''search_papers'' ''topic=graphs'',
                         Tool_use ''toolu_02'' ''translate'' ''lang=fr'']],
      Printed (Text_out ''Done.'')]"
  by (simp add: run_simps unknown_tool_env_def)

lemma content_loop_not_raise:
  "\<forall>ex c'. content_loop env b a xs c \<noteq> Raise ex c' \<Longrightarrow>
   \<exists>c'. content_loop env b a xs c = Normal c' \<or> content_loop env b a xs c = Break c'"
  by (cases "content_loop env b a xs c") auto

text \<open>
  Claim C6, as amended. A response without a tool request ends the query whatever
  number of rounds is still allowed, with the request and the printed texts as the only
  new events. A response with at least one tool request, whose processing does not
  raise, is followed by another backend request, issued on the state at the end of the
  round.
\<close>

theorem round_decides_continuation:
  assumes "messages_create env (events c) (available_tools b) (sent c) = Inr resp"
  shows "((\<forall>x\<in>set resp. \<not> is_tool_use x) \<longrightarrow>
            process_query_loop env b (Suc fuel) c =
              Returned (c\<lparr>events := events c @ request b c # text_events resp,
                          heap := heap c @ [texts resp], has_tool_use := False\<rparr>)) \<and>
         ((\<exists>x\<in>set resp. is_tool_use x) \<and>
          (\<forall>ex c'. content_loop env b (length (heap c)) resp (start_round b c) \<noteq> Raise ex c') \<longrightarrow>
            (\<exists>c'. process_query_loop env b (Suc (Suc fuel)) c =
                     process_query_loop env b (Suc fuel) c' \<and>
                   prefix (events c @ [request b c]) (events c') \<and>
                   prefix (events c' @ [request b c'])
                     (events_of (process_query_loop env b (Suc (Suc fuel)) c))))"
proof -
  let ?r = "content_loop env b (length (heap c)) resp (start_round b c)"
  have none: "process_query_loop env b (Suc fuel) c =
      Returned (c\<lparr>events := events c @ request b c # text_events resp,
                  heap := heap c @ [texts resp], has_tool_use := False\<rparr>)"
    if "\<forall>x\<in>set resp. \<not> is_tool_use x"
    using assms content_loop_texts [OF that, of env b "length (heap c)" "start_round b c"]
    by (simp add: start_round_def heap_extend_new)
  have some: "\<exists>c'. process_query_loop env b (Suc (Suc fuel)) c =
                     process_query_loop env b (Suc fuel) c' \<and>
                   prefix (events c @ [request b c]) (events c') \<and>
                   prefix (events c' @ [request b c'])
                     (events_of (process_query_loop env b (Suc (Suc fuel)) c))"
    if tu: "\<exists>x\<in>set resp. is_tool_use x" and nr: "\<forall>ex c'. ?r \<noteq> Raise ex c'"
  proof -
    from content_loop_not_raise [OF nr] obtain c' where r: "?r = Normal c' \<or> ?r = Break c'"
      by blast
    then have h: "has_tool_use c'"
      using tu content_loop_has_tool_use [of env b "length (heap c)" resp "start_round b c" c']
      by auto
    have step: "\<And>k. process_query_loop env b (Suc k) c = process_query_loop env b k c'"
      using assms r h by auto
    have "prefix (events (start_round b c)) (events (flow_state ?r))"
      by (rule content_loop_events)
    then have p: "prefix (events c @ [request b c]) (events c')"
      using r by (auto simp: start_round_def)
    show ?thesis
      using step [of "Suc fuel"] p loop_first_request [of c' b env fuel] by auto
  qed
  show ?thesis using none some by blast
qed

theorem round_decides_continuation_witness:
  "process_query_loop quiet_env research_bot (Suc 0)
     \<lparr>messages = [User_text ''hello''], heap = [], has_tool_use = False, events = []\<rparr> =
   Returned \<lparr>messages = [User_text ''hello''], heap = [[Text ''Done.'']], has_tool_use = False,
             events = [Backend_request (available_tools research_bot) [User_says ''hello''],
                       Printed (Text_out ''Done.'')]\<rparr> \<and>
   (\<exists>c'. process_query_loop unknown_tool_env research_bot (Suc (Suc 0))
           \<lparr>messages = [User_text ''q''], heap = [], has_tool_use = False, events = []\<rparr> =
         process_query_loop unknown_tool_env research_bot (Suc 0) c' \<and>
         prefix [Backend_request (available_tools research_bot) [User_says ''q'']] (events c') \<and>
         prefix (events c' @ [request research_bot c'])
           (events_of (process_query_loop unknown_tool_env research_bot (Suc (Suc 0))
              \<lparr>messages = [User_text ''q''], heap = [], has_tool_use = False, events = []\<rparr>)))"
proof -
  let ?h = "\<lparr>messages = [User_text ''hello''], heap = [], has_tool_use = False, events = []\<rparr>"
  let ?c = "\<lparr>messages = [User_text ''q''], heap = [], has_tool_use = False, events = []\<rparr>"
  let ?resp = "[Tool_use ''toolu_01'' ''search_papers'' ''topic=graphs'',
                Tool_use ''toolu_02'' ''translate'' ''lang=fr'',
                Tool_use ''toolu_03'' ''extract_info'' ''paper_id=1'']"
  have 1: "messages_create quiet_env (events ?h) (available_tools research_bot) (sent ?h) =
      Inr [Text ''Done.'']"
    by (simp add: quiet_env_def)
  have 2: "messages_create unknown_tool_env (events ?c) (available_tools research_bot) (sent ?c) =
      Inr ?resp"
    by (simp add: unknown_tool_env_def quiet_env_def sent_def)
  have 3: "(\<exists>x\<in>set ?resp. is_tool_use x) \<and>
      (\<forall>ex c'. content_loop unknown_tool_env research_bot (length (heap ?c)) ?resp
          (start_round research_bot ?c) \<noteq> Raise ex c')"
    by (simp add: run_simps unknown_tool_env_def)
  show ?thesis
    using round_decides_continuation [OF 1, of 0] round_decides_continuation [OF 2, of 0] 3
    by (simp add: request_def sent_def)
qed

text \<open>
  The claim C6 as stated fails: the response holds a tool request, the call raises, and
  no second backend request is issued.
\<close>

theorem tool_error_stops_requests:
  "messages_create spoken_broken_env [] (available_tools research_bot)
     [User_says ''summarise paper 1''] =
     Inr [Text ''Let me search.'', Tool_use ''toolu_01'' ''extract_info'' ''paper_id=1''] \<and>
   events_of (process_query spoken_broken_env research_bot (Suc (Suc (Suc 0))) ''summarise paper 1'') =
     [Backend_request
        [Tool_dict ''search_papers'' ''Search for papers on arXiv'' ''topic, max_results'',
         Tool_dict ''extract_info'' ''Information about a paper'' ''paper_id'']
        [User_says ''summarise paper 1''],
      Printed (Text_out ''Let me search.''),
      Call_tool (Session ''research'') ''extract_info'' ''paper_id=1'']"
  by (simp add: run_simps spoken_broken_env_def)




subsection \<open>The references of a conversation\<close>

text \<open>
  The references of a conversation are never dangling: \<open>process_query\<close> starts with no
  assistant turn, and every round allocates its list before it appends a reference.
\<close>

lemma length_heap_append: "length (heap_append a x h) = length h"
  by (simp add: heap_append_def)

lemma content_loop_allocated:
  "a < length (heap c) \<Longrightarrow> allocated c \<Longrightarrow>
   allocated (flow_state (content_loop env b a xs c)) \<and>
   length (heap (flow_state (content_loop env b a xs c))) = length (heap c)"
proof (induction env b a xs c rule: content_loop.induct)
  case (1 env b a c)
  then show ?case by simp
next
  case (2 env b a t rest c)
  then show ?case by (auto simp: allocated_def length_heap_append)
next
  case (3 env b a ty rest c)
  then show ?case by simp
next
  case (4 env b a i n inp rest c)
  show ?case
  proof (cases "dict_get (sessions b) n")
    case None
    then show ?thesis
      using "4.prems" by (auto simp: Let_def allocated_def length_heap_append)
  next
    case (Some s)
    show ?thesis
    proof (cases "call_tool env (events c) s n inp")
      case (Inl ex)
      then show ?thesis
        using Some "4.prems" by (auto simp: Let_def allocated_def length_heap_append)
    next
      case (Inr r)
      then show ?thesis
        using Some "4.prems" "4.IH" [OF refl Some, of r]
        by (auto simp: Let_def allocated_def length_heap_append)
    qed
  qed
qed

lemma loop_allocated:
  "allocated c \<Longrightarrow> allocated (conv_of (process_query_loop env b fuel c))"
proof (induction fuel arbitrary: c)
  case 0
  then show ?case by simp
next
  case (Suc fuel)
  show ?case
  proof (cases "messages_create env (events c) (available_tools b) (sent c)")
    case (Inl ex)
    then show ?thesis using Suc.prems by (simp add: allocated_def)
  next
    case (Inr resp)
    let ?r = "content_loop env b (length (heap c)) resp (start_round b c)"
    have "length (heap c) < length (heap (start_round b c))" "allocated (start_round b c)"
      using Suc.prems by (auto simp: start_round_def allocated_def less_Suc_eq)
    from content_loop_allocated [OF this, of env b resp]
    have a: "allocated (flow_state ?r)" by simp
    show ?thesis
    proof (cases ?r)
      case (Normal c')
      then show ?thesis using Inr a Suc.IH [of c'] by auto
    next
      case (Break c')
      then show ?thesis using Inr a Suc.IH [of c'] by auto
    next
      case (Raise ex c')
      then show ?thesis using Inr a by simp
    qed
  qed
qed

lemma process_query_allocated: "allocated (conv_of (process_query env b fuel query))"
  unfolding process_query_def by (rule loop_allocated) (simp add: allocated_def)

end
